theory Spec2Isabelle
  imports Main
begin

section \<open>Python strings\<close>

text \<open>
  A Python \<open>str\<close> is modelled by the \<open>string\<close> of its UTF-8 bytes (the texts of updates
  hold no lone surrogate). The operations of \<open>bot1.py\<close> on ASCII delimiters
  (\<open>startswith\<close>, \<open>split(":")\<close>, \<open>rsplit(" ", 1)\<close>, \<open>query[6:]\<close> after an ASCII prefix,
  concatenation) are the same on the bytes as on the characters. \<open>strip()\<close>, \<open>int()\<close> and
  the slices of \<open>split_text\<close> act on characters: \<open>utf8_chars\<close> cuts the bytes into the
  characters, each a byte with the continuation bytes that follow it, and \<open>code_point\<close>
  reads the code point of one character (\<open>1114112\<close>, beyond the last code point, for
  bytes that encode none).
\<close>

definition startswith :: "string \<Rightarrow> string \<Rightarrow> bool" where
  "startswith s p = (take (length p) s = p)"

definition is_continuation :: "char \<Rightarrow> bool" where
  "is_continuation c = (128 \<le> (of_char c :: nat) \<and> (of_char c :: nat) < 192)"

function utf8_chars :: "string \<Rightarrow> string list" where
  "utf8_chars [] = []"
| "utf8_chars (c # cs) =
     (c # takeWhile is_continuation cs) # utf8_chars (dropWhile is_continuation cs)"
  by pat_completeness auto
termination
  by (relation "measure length") (auto simp: le_imp_less_Suc length_dropWhile_le)

definition code_point :: "string \<Rightarrow> nat" where
  "code_point c =
     (case map of_char c of
        [a] \<Rightarrow> if a < 128 then a else 1114112
      | [a, b] \<Rightarrow> if 194 \<le> a \<and> a < 224 then (a - 192) * 64 + (b - 128) else 1114112
      | [a, b, c] \<Rightarrow>
          (let n = (a - 224) * 4096 + (b - 128) * 64 + (c - 128)
           in if 224 \<le> a \<and> a < 240 \<and> 2048 \<le> n then n else 1114112)
      | [a, b, c, d] \<Rightarrow>
          (let n = (a - 240) * 262144 + (b - 128) * 4096 + (c - 128) * 64 + (d - 128)
           in if 240 \<le> a \<and> a < 245 \<and> 65536 \<le> n \<and> n < 1114112 then n else 1114112)
      | _ \<Rightarrow> 1114112)"

text \<open>
  \<open>str.isspace\<close> of one character, by its code point: TAB to CR, FS to US, SPACE, U+0085,
  U+00A0, U+1680, U+2000 to U+200A, U+2028, U+2029, U+202F, U+205F, U+3000.
\<close>

definition py_isspace :: "nat \<Rightarrow> bool" where
  "py_isspace n =
     ((9 \<le> n \<and> n \<le> 13) \<or> (28 \<le> n \<and> n \<le> 32) \<or> n = 133 \<or> n = 160 \<or> n = 5760
      \<or> (8192 \<le> n \<and> n \<le> 8202) \<or> n = 8232 \<or> n = 8233 \<or> n = 8239 \<or> n = 8287
      \<or> n = 12288)"

definition is_space_char :: "string \<Rightarrow> bool" where
  "is_space_char c = py_isspace (code_point c)"

text \<open>\<open>s.strip()\<close>: the characters of \<open>s\<close> without the whitespace at both ends.\<close>

definition strip :: "string \<Rightarrow> string" where
  "strip s =
     concat (rev (dropWhile is_space_char (rev (dropWhile is_space_char (utf8_chars s)))))"

text \<open>\<open>s.split(c)\<close>: the fields between the occurrences of \<open>c\<close>; never an empty list.\<close>

fun split_on :: "char \<Rightarrow> string \<Rightarrow> string list" where
  "split_on c [] = [[]]"
| "split_on c (x # xs) =
     (if x = c then [] # split_on c xs
      else (let r = split_on c xs in (x # hd r) # tl r))"

text \<open>\<open>s.rsplit(" ", 1)\<close>: one split at the last space character, if there is one.\<close>

definition rsplit_space1 :: "string \<Rightarrow> string list" where
  "rsplit_space1 s =
     (let r = rev s;
          after = takeWhile (\<lambda>c. c \<noteq> CHR '' '') r;
          rest = dropWhile (\<lambda>c. c \<noteq> CHR '' '') r
      in if rest = [] then [s] else [rev (tl rest), rev after])"

subsection \<open>The builtin int\<close>

text \<open>
  \<open>int(s)\<close> for a \<open>str\<close>, as CPython computes it. First every character beyond ASCII is
  replaced: a whitespace character by a space, a decimal digit of the Unicode database
  by the ASCII digit of its value, any other character by \<open>?\<close>
  (\<open>_PyUnicode_TransformDecimalAndSpaceToASCII\<close>); ASCII characters stay. The database is
  a fact of the interpreter's version and is a parameter: \<open>dec n\<close> is the decimal value
  of the character with code point \<open>n\<close>, if it is a decimal digit.
\<close>

definition ascii_of :: "(nat \<Rightarrow> nat option) \<Rightarrow> string \<Rightarrow> char" where
  "ascii_of dec c =
     (let n = code_point c in
      if n < 128 then hd c
      else if py_isspace n then CHR '' ''
      else if 1114112 \<le> n then CHR ''?''
      else (case dec n of
              None \<Rightarrow> CHR ''?''
            | Some d \<Rightarrow> if d < 10 then ''0123456789'' ! d else CHR ''?''))"

text \<open>The whitespace of C that \<open>PyLong_FromString\<close> skips at both ends: TAB to CR and SPACE.\<close>

definition c_isspace :: "char \<Rightarrow> bool" where
  "c_isspace c = ((9 \<le> (of_char c :: nat) \<and> (of_char c :: nat) \<le> 13) \<or> (of_char c :: nat) = 32)"

definition is_digit :: "char \<Rightarrow> bool" where
  "is_digit c = (48 \<le> (of_char c :: nat) \<and> (of_char c :: nat) \<le> 57)"

definition digit_val :: "char \<Rightarrow> int" where
  "digit_val c = int (of_char c) - 48"

text \<open>
  The literal in base 10 after the sign: at least one digit, single underscores allowed
  between digits only.
\<close>

fun digits_ok :: "string \<Rightarrow> bool" where
  "digits_ok [] = False"
| "digits_ok [c] = is_digit c"
| "digits_ok (c # d # cs) =
     (is_digit c \<and> (if d = CHR ''_'' then digits_ok cs else digits_ok (d # cs)))"

definition digits_val :: "string \<Rightarrow> int" where
  "digits_val s = foldl (\<lambda>a c. if c = CHR ''_'' then a else 10 * a + digit_val c) 0 s"

text \<open>
  The value of \<open>int(s)\<close>, or \<open>None\<close> where it raises \<open>ValueError\<close>: whitespace is skipped at
  both ends, one sign is read, and the rest is the literal. A literal of more than 640
  digits is refused when it has more digits than the limit \<open>sys.get_int_max_str_digits()\<close>,
  a setting of the interpreter and the parameter \<open>limit\<close> (0: no limit).
\<close>

definition int_literal :: "(nat \<Rightarrow> nat option) \<Rightarrow> nat \<Rightarrow> string \<Rightarrow> int option" where
  "int_literal dec limit s =
     (let a = map (ascii_of dec) (utf8_chars s);
          t = rev (dropWhile c_isspace (rev (dropWhile c_isspace a)));
          neg = (t \<noteq> [] \<and> hd t = CHR ''-'');
          body = (if t \<noteq> [] \<and> (hd t = CHR ''-'' \<or> hd t = CHR ''+'') then tl t else t);
          n = length (filter is_digit body)
      in if digits_ok body \<and> \<not> (640 < n \<and> 0 < limit \<and> limit < n)
         then Some (if neg then - digits_val body else digits_val body)
         else None)"

text \<open>\<open>str(n)\<close> for an \<open>int\<close>.\<close>

definition digit_char :: "nat \<Rightarrow> char" where
  "digit_char n = char_of (48 + n mod 10)"

fun str_nat :: "nat \<Rightarrow> string" where
  "str_nat n = (if n < 10 then [digit_char n] else str_nat (n div 10) @ [digit_char n])"

declare str_nat.simps [simp del]

definition str_int :: "int \<Rightarrow> string" where
  "str_int i = (if i < 0 then CHR ''-'' # str_nat (nat (- i)) else str_nat (nat i))"

section \<open>Exceptions\<close>

text \<open>
  The exceptions the handlers can meet, each with the text \<open>str(e)\<close> gives where a handler
  prints it. \<open>ValueError\<close> carries its message; \<open>NameError n\<close> is the read of the unbound name
  \<open>n\<close>, \<open>AttributeError a\<close> the read of attribute \<open>a\<close> of \<open>None\<close>, \<open>TypeError\<close> the subscript of
  a list with \<open>None\<close>, \<open>IndexError\<close> a list index out of range. \<open>TelegramError\<close> stands for
  whatever a request of the bot API raises, with its message.
\<close>

datatype exn =
    ValueError string
  | NameError string
  | IndexError
  | TypeError
  | AttributeError string
  | TelegramError string

fun str_exn :: "exn \<Rightarrow> string" where
  "str_exn (ValueError m) = m"
| "str_exn (NameError n) = ''name '' @ [CHR 0x27] @ n @ [CHR 0x27] @ '' is not defined''"
| "str_exn IndexError = ''list index out of range''"
| "str_exn TypeError = ''list indices must be integers or slices, not NoneType''"
| "str_exn (AttributeError a) =
     [CHR 0x27] @ ''NoneType'' @ [CHR 0x27] @ '' object has no attribute '' @ [CHR 0x27] @ a @ [CHR 0x27]"
| "str_exn (TelegramError s) = s"

section \<open>Data model\<close>

text \<open>The dictionaries \<open>{"text": ..., "url": ...}\<close> held in \<open>session["inline_buttons"]\<close>.\<close>

record btn =
  btn_text :: string
  btn_url :: string

text \<open>
  An \<open>InlineKeyboardButton\<close> built by the bot: with \<open>url\<close>, with \<open>callback_data\<close> or
  with \<open>switch_inline_query\<close>; the first argument is the button's text. An
  \<open>InlineKeyboardMarkup\<close> is the list of its rows.
\<close>

datatype inline_button =
    UrlButton string string
  | CallbackButton string string
  | SwitchInlineButton string string

type_synonym markup = "inline_button list list"

text \<open>The session dictionary of \<open>start_message\<close>; \<open>text_s\<close> is its key \<open>"text"\<close>.\<close>

record session =
  session_id :: string
  chat_id :: int
  text_s :: string
  inline_buttons :: "btn list list"
  awaiting_button_info :: bool
  target_row :: "int option"
  last_message_id :: "int option"
  is_media :: bool
  original_message_id :: int
  final_message_id :: "int option"
  awaiting_post :: bool
  post_channel :: "int option"

text \<open>
  \<open>context.user_data\<close> of one user. A missing key \<open>"sessions"\<close> reads as the empty
  dictionary (\<open>user_data.get("sessions", {})\<close>), so the key is modelled as always
  present. The two pointers are keys that are present (\<open>Some\<close>) or absent.
\<close>

record user_data =
  sessions :: "string \<rightharpoonup> session"
  awaiting_session_id :: "string option"
  awaiting_post_session_id :: "string option"

text \<open>
  The module's global names that hold an invite-link dictionary
  \<open>{channel_id: (channel_title, invite_link)}\<close>: a dictionary is the list of its items in
  the order of insertion, which \<open>invite_command\<close> lists them in. The module binds exactly
  one such name, \<open>invite_links_button_bot\<close> (line 31); reading a name that is not bound
  raises \<open>NameError\<close>.
\<close>

type_synonym invite_table = "(int \<times> string \<times> string) list"

type_synonym py_globals = "string \<rightharpoonup> invite_table"

text \<open>\<open>d[k] = v\<close>: the value of a key that is present is replaced, a new key goes last.\<close>

fun dict_set :: "'k \<Rightarrow> 'v \<Rightarrow> ('k \<times> 'v) list \<Rightarrow> ('k \<times> 'v) list" where
  "dict_set k v [] = [(k, v)]"
| "dict_set k v (item # items) =
     (if fst item = k then (k, v) # items else item # dict_set k v items)"

definition module_globals :: py_globals where
  "module_globals = [''invite_links_button_bot'' \<mapsto> []]"

definition ADMIN_ID :: int where
  "ADMIN_ID = 6773787379"

section \<open>Incoming updates\<close>

text \<open>A button of a received message's \<open>reply_markup\<close>: its text and its \<open>url\<close>, if any.\<close>

record in_button =
  ib_text :: string
  ib_url :: "string option"

record message =
  m_message_id :: int
  m_chat_id :: int
  m_text :: "string option"
  m_caption :: "string option"
  m_forward_date :: bool
  m_forward_from_chat :: "int option"
  m_reply_markup :: "in_button list list option"

text \<open>
  What the filters of \<open>main\<close> find at the start of an update's effective message: no bot
  command (\<open>filters.COMMAND\<close> is false), the command \<open>/invite\<close> for this bot
  (\<open>CommandHandler("invite")\<close> accepts the update), or another command.
\<close>

datatype command = NoCommand | InviteCommand | OtherCommand

text \<open>
  An update that carries a message: \<open>effective_chat.type\<close>, \<open>effective_user.id\<close>,
  \<open>update.message\<close> (absent for an edited message or a channel post) and the command the
  filters find.
\<close>

record message_update =
  mu_chat_type :: string
  mu_user_id :: int
  mu_message :: "message option"
  mu_command :: command

text \<open>
  An update the \<open>CallbackQueryHandler\<close> receives. \<open>effective_chat\<close> is \<open>None\<close> for a
  callback query of an inline message.
\<close>

record callback_update =
  cq_chat_type :: "string option"
  cq_user_id :: int
  cq_data :: string

record inline_update =
  iq_user_id :: int
  iq_query :: string

section \<open>The bot API and the other inputs from outside\<close>

text \<open>
  The requests a handler makes, in the order it makes them. \<open>CopyMessage\<close> carries
  \<open>chat_id\<close>, \<open>from_chat_id\<close>, \<open>message_id\<close> and \<open>reply_markup\<close>; \<open>ReplyText\<close> the text,
  \<open>reply_markup\<close> and \<open>reply_to_message_id\<close>; \<open>AnswerInlineQuery\<close> the one article's id,
  message text and \<open>reply_markup\<close>.
\<close>

datatype call =
    AnswerCallback
  | EditMessageText string
  | SendMessage int string "markup option"
  | CopyMessage int int int markup
  | ReplyText string "markup option" "int option"
  | CreateChatInviteLink int
  | GetChat int
  | GetChatMember int int
  | AnswerInlineQuery string string markup

text \<open>
  What the outside answers while one update is handled: every request returns its
  result or raises (\<open>Inl\<close>). \<open>copy_message\<close> returns the new message's id, \<open>get_chat\<close> the
  chat's title, \<open>get_chat_member\<close> the member's status. \<open>uuid4_hex\<close> is the value of
  \<open>uuid.uuid4().hex\<close>. The last three fields are facts of the interpreter that runs the
  bot, which the builtin \<open>int\<close> depends on: the decimal value of a character of the
  Unicode database, by its code point; \<open>sys.get_int_max_str_digits()\<close>; and the text
  \<open>str(e)\<close> of the \<open>ValueError\<close> that \<open>int(s)\<close> raises for the \<open>str\<close> \<open>s\<close>.
\<close>

record env =
  query_answer :: "exn + unit"
  edit_message_text :: "string \<Rightarrow> exn + unit"
  send_message :: "int \<Rightarrow> string \<Rightarrow> markup option \<Rightarrow> exn + unit"
  copy_message :: "int \<Rightarrow> int \<Rightarrow> int \<Rightarrow> markup \<Rightarrow> exn + int"
  reply_text :: "string \<Rightarrow> markup option \<Rightarrow> int option \<Rightarrow> exn + unit"
  create_chat_invite_link :: "int \<Rightarrow> exn + string"
  get_chat :: "int \<Rightarrow> exn + string option"
  get_chat_member :: "int \<Rightarrow> int \<Rightarrow> exn + string"
  inline_query_answer :: "string \<Rightarrow> string \<Rightarrow> markup \<Rightarrow> exn + unit"
  uuid4_hex :: string
  unicode_decimal :: "nat \<Rightarrow> nat option"
  int_max_str_digits :: nat
  int_error_text :: "string \<Rightarrow> string"

text \<open>\<open>int(s)\<close> for a \<open>str\<close> \<open>s\<close>: its value, or the \<open>ValueError\<close> it raises.\<close>

definition py_int :: "env \<Rightarrow> string \<Rightarrow> exn + int" where
  "py_int e s =
     (case int_literal (unicode_decimal e) (int_max_str_digits e) s of
        None \<Rightarrow> Inl (ValueError (int_error_text e s))
      | Some i \<Rightarrow> Inr i)"

text \<open>
  A handler's run: the requests made, the exception that left the handler (\<open>None\<close>: it
  returned), and the state it left behind.
\<close>

type_synonym 'st result = "call list \<times> exn option \<times> 'st"

definition ret :: "'st \<Rightarrow> 'st result" where
  "ret st = ([], None, st)"

definition raise :: "exn \<Rightarrow> 'st \<Rightarrow> 'st result" where
  "raise e st = ([], Some e, st)"

definition prepend :: "call list \<Rightarrow> 'st result \<Rightarrow> 'st result" where
  "prepend cs r = (case r of (cs', out, st) \<Rightarrow> (cs @ cs', out, st))"

text \<open>
  \<open>await c r st k\<close>: the request \<open>c\<close> is made in state \<open>st\<close> and answered by \<open>r\<close>; when it
  raises, the exception leaves the handler in state \<open>st\<close>, otherwise \<open>k\<close> goes on with
  the value.
\<close>

definition await :: "call \<Rightarrow> exn + 'a \<Rightarrow> 'st \<Rightarrow> ('a \<Rightarrow> 'st result) \<Rightarrow> 'st result" where
  "await c r st k = (case r of Inl e \<Rightarrow> ([c], Some e, st) | Inr v \<Rightarrow> prepend [c] (k v))"

definition calls_of :: "'st result \<Rightarrow> call list" where
  "calls_of r = fst r"

definition raised_of :: "'st result \<Rightarrow> exn option" where
  "raised_of r = fst (snd r)"

definition state_of :: "'st result \<Rightarrow> 'st" where
  "state_of r = snd (snd r)"

section \<open>Helpers and keyboard builders\<close>

definition is_valid_url :: "string \<Rightarrow> bool" where
  "is_valid_url url =
     (startswith url ''http://'' \<or> startswith url ''https://'' \<or> startswith url ''tg://'')"

text \<open>The label \<open>Done\<close>, a space and the check mark U+2705 (in UTF-8).\<close>

definition done_label :: string where
  "done_label = ''Done '' @ [CHR 0xE2, CHR 0x9C, CHR 0x85]"

definition url_buttons :: "btn list \<Rightarrow> inline_button list" where
  "url_buttons row = map (\<lambda>b. UrlButton (btn_text b) (btn_url b)) row"

definition build_editing_keyboard :: "session \<Rightarrow> markup" where
  "build_editing_keyboard session =
     map (\<lambda>(i, row). url_buttons row @
            [CallbackButton ''+'' (''session:'' @ session_id session @ '':add_to_row:'' @ str_nat i)])
         (enumerate 0 (inline_buttons session))
     @ [[CallbackButton ''+'' (''session:'' @ session_id session @ '':new_row'')]]
     @ (if inline_buttons session \<noteq> []
        then [[CallbackButton done_label (''session:'' @ session_id session @ '':done'')]]
        else [])"

definition build_final_keyboard :: "session \<Rightarrow> markup" where
  "build_final_keyboard session = map url_buttons (inline_buttons session)"

definition build_post_share_keyboard :: "session \<Rightarrow> markup" where
  "build_post_share_keyboard session =
     [[SwitchInlineButton ''Share'' (''share_'' @ session_id session)],
      [CallbackButton ''Post To Group/Channel'' (''session:'' @ session_id session @ '':post'')]]"

definition build_yes_no_keyboard :: "session \<Rightarrow> int \<Rightarrow> markup" where
  "build_yes_no_keyboard session dest =
     [[CallbackButton ''Yes''
         (''session:'' @ session_id session @ '':post_confirm:yes:'' @ str_int dest),
       CallbackButton ''No'' (''session:'' @ session_id session @ '':post_confirm:no'')]]"

section \<open>start\_message\<close>

text \<open>
  The URL buttons of a forwarded message's keyboard (lines 121-129): a button is kept
  when its \<open>url\<close> is true (present and not empty), a row when a button of it is kept.
\<close>

definition extract_row :: "in_button list \<Rightarrow> btn list" where
  "extract_row row =
     concat (map (\<lambda>b. case ib_url b of
                         None \<Rightarrow> []
                       | Some u \<Rightarrow> if u \<noteq> [] then [\<lparr>btn_text = ib_text b, btn_url = u\<rparr>] else [])
                 row)"

definition extract_buttons :: "in_button list list option \<Rightarrow> btn list list" where
  "extract_buttons reply_markup =
     (case reply_markup of
        None \<Rightarrow> []
      | Some keyboard \<Rightarrow> filter (\<lambda>new_row. new_row \<noteq> []) (map extract_row keyboard))"

definition new_session :: "env \<Rightarrow> message \<Rightarrow> session" where
  "new_session e m =
     \<lparr>session_id = str_int (m_message_id m) @ ''_'' @ take 6 (uuid4_hex e),
      chat_id = m_chat_id m,
      text_s = (case m_text m of
                  Some t \<Rightarrow> t
                | None \<Rightarrow> (case m_caption m of Some c \<Rightarrow> c | None \<Rightarrow> [])),
      inline_buttons = (if m_forward_date m then extract_buttons (m_reply_markup m) else []),
      awaiting_button_info = False,
      target_row = None,
      last_message_id = None,
      is_media = (m_text m = None),
      original_message_id = m_message_id m,
      final_message_id = None,
      awaiting_post = False,
      post_channel = None\<rparr>"

definition put_session :: "session \<Rightarrow> user_data \<Rightarrow> user_data" where
  "put_session s ud = ud\<lparr>sessions := (sessions ud)(session_id s \<mapsto> s)\<rparr>"

definition start_message :: "env \<Rightarrow> message_update \<Rightarrow> user_data \<Rightarrow> user_data result" where
  "start_message e upd ud =
     (if mu_chat_type upd \<noteq> ''private'' then ret ud
      else case mu_message upd of
        None \<Rightarrow> ret ud
      | Some m \<Rightarrow>
          (let session = new_session e m;
               ud1 = put_session session ud;
               keyboard = build_editing_keyboard session
           in await (CopyMessage (m_chat_id m) (m_chat_id m) (m_message_id m) keyboard)
                (copy_message e (m_chat_id m) (m_chat_id m) (m_message_id m) keyboard) ud1
                (\<lambda>sent. ret (put_session (session\<lparr>last_message_id := Some sent\<rparr>) ud1))))"

section \<open>button\_callback\<close>

text \<open>
  Lines 210-219: the session awaits button info for \<open>row_index\<close>, the user's pointer
  is set to it, and the prompt is sent. The session is stored under the key it was
  found with.
\<close>

definition prompt_button_info ::
  "env \<Rightarrow> string \<Rightarrow> session \<Rightarrow> int \<Rightarrow> user_data \<Rightarrow> user_data result" where
  "prompt_button_info e sid session row_index ud =
     (let session1 = session\<lparr>awaiting_button_info := True, target_row := Some row_index\<rparr>;
          ud1 = ud\<lparr>sessions := (sessions ud)(sid \<mapsto> session1), awaiting_session_id := Some sid\<rparr>
      in await (SendMessage (chat_id session) ''Please send button info in format: <label> <URL>'' None)
           (send_message e (chat_id session) ''Please send button info in format: <label> <URL>'' None)
           ud1 (\<lambda>_. ret ud1))"

definition add_row_action ::
  "env \<Rightarrow> string list \<Rightarrow> string \<Rightarrow> session \<Rightarrow> user_data \<Rightarrow> user_data result" where
  "add_row_action e data sid session ud =
     (if data ! 2 = ''add_to_row'' then
        (if length data < 4 then ret ud
         else case py_int e (data ! 3) of
           Inl ex \<Rightarrow> ret ud
         | Inr row_index \<Rightarrow> prompt_button_info e sid session row_index ud)
      else prompt_button_info e sid session (int (length (inline_buttons session))) ud)"

definition done_action :: "env \<Rightarrow> string \<Rightarrow> session \<Rightarrow> user_data \<Rightarrow> user_data result" where
  "done_action e sid session ud =
     (if inline_buttons session = [] then
        await (SendMessage (chat_id session) ''No URL buttons created yet.'' None)
          (send_message e (chat_id session) ''No URL buttons created yet.'' None) ud (\<lambda>_. ret ud)
      else
        await (CopyMessage (chat_id session) (chat_id session) (original_message_id session)
                 (build_final_keyboard session))
          (copy_message e (chat_id session) (chat_id session) (original_message_id session)
             (build_final_keyboard session)) ud
          (\<lambda>sent.
             let session1 = session\<lparr>final_message_id := Some sent\<rparr>;
                 ud1 = ud\<lparr>sessions := (sessions ud)(sid \<mapsto> session1)\<rparr>
             in await (SendMessage (chat_id session1)
                         ''You can share it or post it to a group/channel.''
                         (Some (build_post_share_keyboard session1)))
                  (send_message e (chat_id session1)
                     ''You can share it or post it to a group/channel.''
                     (Some (build_post_share_keyboard session1)))
                  ud1 (\<lambda>_. ret ud1)))"

definition post_action :: "env \<Rightarrow> string \<Rightarrow> session \<Rightarrow> user_data \<Rightarrow> user_data result" where
  "post_action e sid session ud =
     (let ud1 = ud\<lparr>sessions := (sessions ud)(sid \<mapsto> session\<lparr>awaiting_post := True\<rparr>),
                  awaiting_post_session_id := Some sid\<rparr>
      in await (SendMessage (chat_id session)
                  ''Please send the channel/group ID or forward a message from that channel/group.''
                  None)
           (send_message e (chat_id session)
              ''Please send the channel/group ID or forward a message from that channel/group.''
              None)
           ud1 (\<lambda>_. ret ud1))"

text \<open>
  The body of the \<open>try\<close> of lines 253-269, run on the module's globals. The last
  statement assigns into the dictionary named \<open>invite_links\<close>: the name is looked up
  among the globals.
\<close>

definition try_post :: "env \<Rightarrow> string \<Rightarrow> session \<Rightarrow> py_globals \<Rightarrow> py_globals result" where
  "try_post e dest session g =
     (case py_int e dest of
        Inl ex \<Rightarrow> raise ex g
      | Inr d \<Rightarrow>
          await (CopyMessage d (chat_id session) (original_message_id session)
                   (build_final_keyboard session))
            (copy_message e d (chat_id session) (original_message_id session)
               (build_final_keyboard session)) g
            (\<lambda>_. await (SendMessage (chat_id session) ''Message posted successfully!'' None)
                   (send_message e (chat_id session) ''Message posted successfully!'' None) g
            (\<lambda>_. await (CreateChatInviteLink d) (create_chat_invite_link e d) g
            (\<lambda>new_invite. await (GetChat d) (get_chat e d) g
            (\<lambda>chat_title.
               let title = (case chat_title of
                              None \<Rightarrow> ''Unknown Title''
                            | Some t \<Rightarrow> if t \<noteq> [] then t else ''Unknown Title'')
               in case g ''invite_links'' of
                    None \<Rightarrow> raise (NameError ''invite_links'') g
                  | Some invite_links \<Rightarrow>
                      ret (g(''invite_links'' \<mapsto>
                             dict_set d (title, new_invite) invite_links)))))))"

definition del_session :: "string \<Rightarrow> user_data \<Rightarrow> user_data" where
  "del_session sid ud = ud\<lparr>sessions := (sessions ud)(sid := None)\<rparr>"

definition post_confirm_action ::
  "env \<Rightarrow> string list \<Rightarrow> string \<Rightarrow> session \<Rightarrow> user_data \<times> py_globals
     \<Rightarrow> (user_data \<times> py_globals) result" where
  "post_confirm_action e data sid session st =
     (if length data < 4 then ret st
      else if data ! 3 = ''yes'' then
        (if length data < 5 then ret st
         else case try_post e (data ! 4) session (snd st) of
           (cs, None, g1) \<Rightarrow> (cs, None, (del_session sid (fst st), g1))
         | (cs, Some ex, g1) \<Rightarrow>
             prepend cs
               (await (SendMessage (chat_id session) (''Failed to post message: '' @ str_exn ex) None)
                  (send_message e (chat_id session) (''Failed to post message: '' @ str_exn ex) None)
                  (fst st, g1) (\<lambda>_. ret (del_session sid (fst st), g1))))
      else if data ! 3 = ''no'' then
        await (SendMessage (chat_id session) ''Posting cancelled.'' None)
          (send_message e (chat_id session) ''Posting cancelled.'' None) st
          (\<lambda>_. ret (del_session sid (fst st), snd st))
      else ret st)"

definition with_globals :: "py_globals \<Rightarrow> user_data result \<Rightarrow> (user_data \<times> py_globals) result" where
  "with_globals g r = (case r of (cs, out, ud) \<Rightarrow> (cs, out, (ud, g)))"

definition button_callback ::
  "env \<Rightarrow> callback_update \<Rightarrow> user_data \<times> py_globals \<Rightarrow> (user_data \<times> py_globals) result" where
  "button_callback e upd st =
     (case cq_chat_type upd of
        None \<Rightarrow> raise (AttributeError ''type'') st
      | Some ty \<Rightarrow>
          if ty \<noteq> ''private'' then ret st
          else await AnswerCallback (query_answer e) st
            (\<lambda>_. let data = split_on CHR '':'' (cq_data upd) in
               if length data < 3 \<or> data ! 0 \<noteq> ''session'' then ret st
               else case sessions (fst st) (data ! 1) of
                 None \<Rightarrow>
                   await (EditMessageText ''Session not found.'')
                     (edit_message_text e ''Session not found.'') st (\<lambda>_. ret st)
               | Some session \<Rightarrow>
                   if data ! 2 = ''add_to_row'' \<or> data ! 2 = ''new_row'' then
                     with_globals (snd st) (add_row_action e data (data ! 1) session (fst st))
                   else if data ! 2 = ''done'' then
                     with_globals (snd st) (done_action e (data ! 1) session (fst st))
                   else if data ! 2 = ''post'' then
                     with_globals (snd st) (post_action e (data ! 1) session (fst st))
                   else if data ! 2 = ''post_confirm'' then
                     post_confirm_action e data (data ! 1) session st
                   else ret st))"

section \<open>button\_info\_handler\<close>

text \<open>
  Lines 319-338, once the destination is an integer. The \<open>try\<close> holds the membership
  request and the reply to a user who is not an admin; whatever either raises is
  reported by the \<open>except\<close> clause. Each clearing of the post flow comes after its reply.
\<close>

definition check_admin ::
  "env \<Rightarrow> int \<Rightarrow> string \<Rightarrow> session \<Rightarrow> int \<Rightarrow> user_data \<Rightarrow> user_data result" where
  "check_admin e user_id sid session dest ud =
     (let cleared = ud\<lparr>sessions := (sessions ud)(sid \<mapsto> session\<lparr>awaiting_post := False\<rparr>),
                      awaiting_post_session_id := None\<rparr>;
          on_error = (\<lambda>ex.
            await (ReplyText (''Error checking admin status: '' @ str_exn ex) None None)
              (reply_text e (''Error checking admin status: '' @ str_exn ex) None None) ud
              (\<lambda>_. ret cleared))
      in case get_chat_member e dest user_id of
           Inl ex \<Rightarrow> prepend [GetChatMember dest user_id] (on_error ex)
         | Inr status \<Rightarrow>
             if status \<noteq> ''administrator'' \<and> status \<noteq> ''creator'' then
               (case reply_text e ''You are not an admin in that channel/group.'' None None of
                  Inl ex \<Rightarrow>
                    prepend [GetChatMember dest user_id,
                             ReplyText ''You are not an admin in that channel/group.'' None None]
                      (on_error ex)
                | Inr _ \<Rightarrow>
                    prepend [GetChatMember dest user_id,
                             ReplyText ''You are not an admin in that channel/group.'' None None]
                      (ret cleared))
             else
               prepend [GetChatMember dest user_id]
                 (await (ReplyText (''Do you want to post the final message to channel/group ''
                                      @ str_int dest @ ''?'')
                           (Some (build_yes_no_keyboard session dest)) (final_message_id session))
                    (reply_text e (''Do you want to post the final message to channel/group ''
                                     @ str_int dest @ ''?'')
                       (Some (build_yes_no_keyboard session dest)) (final_message_id session))
                    ud (\<lambda>_. ret (ud\<lparr>awaiting_post_session_id := None\<rparr>))))"

text \<open>The post destination flow, lines 299-338.\<close>

definition post_destination ::
  "env \<Rightarrow> int \<Rightarrow> message \<Rightarrow> string \<Rightarrow> user_data \<Rightarrow> user_data result" where
  "post_destination e user_id m sid ud =
     (case sessions ud sid of
        None \<Rightarrow> ret (ud\<lparr>awaiting_post_session_id := None\<rparr>)
      | Some session \<Rightarrow>
          (case m_forward_from_chat m of
             Some forwarded \<Rightarrow> check_admin e user_id sid session forwarded ud
           | None \<Rightarrow>
               if m_text m \<noteq> None \<and> m_text m \<noteq> Some [] then
                 (case py_int e (strip (the (m_text m))) of
                    Inl ex \<Rightarrow>
                      await (ReplyText ''Invalid channel/group ID. It should be numeric.'' None None)
                        (reply_text e ''Invalid channel/group ID. It should be numeric.'' None None)
                        ud (\<lambda>_. ret ud)
                  | Inr dest \<Rightarrow> check_admin e user_id sid session dest ud)
               else
                 await (ReplyText ''Invalid input for channel/group ID.'' None None)
                   (reply_text e ''Invalid input for channel/group ID.'' None None)
                   ud (\<lambda>_. ret ud)))"

text \<open>
  Lines 357-361 on the rows: \<open>rows[target_row]\<close> with Python's indexing (a negative
  index counts from the end, \<open>None\<close> is a \<open>TypeError\<close>, out of range an \<open>IndexError\<close>).
\<close>

definition append_button :: "int option \<Rightarrow> btn list list \<Rightarrow> btn \<Rightarrow> exn + btn list list" where
  "append_button target rows b =
     (if target = Some (int (length rows)) then Inr (rows @ [[b]])
      else case target of
        None \<Rightarrow> Inl TypeError
      | Some t \<Rightarrow>
          (let n = int (length rows); j = (if t < 0 then n + t else t)
           in if 0 \<le> j \<and> j < n then Inr (rows[nat j := rows ! nat j @ [b]])
              else Inl IndexError))"

definition button_added_text :: string where
  "button_added_text =
     ''Button added! Use the '' @ [CHR 0x27] @ ''+'' @ [CHR 0x27] @ '' buttons to add more or ''
       @ [CHR 0x27] @ done_label @ [CHR 0x27] @ '' to finalize.''"

text \<open>The button info flow, lines 341-373.\<close>

definition button_info :: "env \<Rightarrow> message \<Rightarrow> string \<Rightarrow> user_data \<Rightarrow> user_data result" where
  "button_info e m sid ud =
     (case sessions ud sid of
        None \<Rightarrow> ret (ud\<lparr>awaiting_session_id := None\<rparr>)
      | Some session \<Rightarrow>
          (case m_text m of
             None \<Rightarrow> raise (AttributeError ''strip'') ud
           | Some raw \<Rightarrow>
               (let parts = rsplit_space1 (strip raw) in
                if length parts < 2 then
                  await (ReplyText ''Invalid format. Please send in format: <label> <URL>'' None None)
                    (reply_text e ''Invalid format. Please send in format: <label> <URL>'' None None)
                    ud (\<lambda>_. ret ud)
                else if \<not> is_valid_url (parts ! 1) then
                  await (ReplyText ''Invalid URL. It must start with http://, https:// or tg://''
                           None None)
                    (reply_text e ''Invalid URL. It must start with http://, https:// or tg://''
                       None None)
                    ud (\<lambda>_. ret ud)
                else
                  (case append_button (target_row session) (inline_buttons session)
                          \<lparr>btn_text = parts ! 0, btn_url = parts ! 1\<rparr> of
                     Inl ex \<Rightarrow> raise ex ud
                   | Inr rows \<Rightarrow>
                       (let session1 = session\<lparr>inline_buttons := rows,
                                               awaiting_button_info := False,
                                               target_row := None\<rparr>;
                            ud1 = ud\<lparr>sessions := (sessions ud)(sid \<mapsto> session1),
                                     awaiting_session_id := None\<rparr>
                        in await (CopyMessage (chat_id session1) (chat_id session1)
                                    (original_message_id session1) (build_editing_keyboard session1))
                             (copy_message e (chat_id session1) (chat_id session1)
                                (original_message_id session1) (build_editing_keyboard session1))
                             ud1
                             (\<lambda>sent.
                                let ud2 = ud1\<lparr>sessions := (sessions ud1)
                                                 (sid \<mapsto> session1\<lparr>last_message_id := Some sent\<rparr>)\<rparr>
                                in await (ReplyText button_added_text None None)
                                     (reply_text e button_added_text None None)
                                     ud2 (\<lambda>_. ret ud2)))))))"

definition button_info_handler :: "env \<Rightarrow> message_update \<Rightarrow> user_data \<Rightarrow> user_data result" where
  "button_info_handler e upd ud =
     (if mu_chat_type upd \<noteq> ''private'' then ret ud
      else case mu_message upd of
        None \<Rightarrow> ret ud
      | Some m \<Rightarrow>
          (case awaiting_post_session_id ud of
             Some sid \<Rightarrow> post_destination e (mu_user_id upd) m sid ud
           | None \<Rightarrow>
               (case awaiting_session_id ud of
                  Some sid \<Rightarrow> button_info e m sid ud
                | None \<Rightarrow> start_message e upd ud)))"

section \<open>inline\_query\_handler\<close>

definition inline_query_handler :: "env \<Rightarrow> inline_update \<Rightarrow> user_data \<Rightarrow> user_data result" where
  "inline_query_handler e upd ud =
     (if \<not> startswith (iq_query upd) ''share_'' then ret ud
      else case sessions ud (drop 6 (iq_query upd)) of
        None \<Rightarrow> ret ud
      | Some session \<Rightarrow>
          (let content = (if text_s session \<noteq> [] then text_s session else ''No text content'')
           in await (AnswerInlineQuery (uuid4_hex e) content (build_final_keyboard session))
                (inline_query_answer e (uuid4_hex e) content (build_final_keyboard session))
                ud (\<lambda>_. ret ud)))"

section \<open>invite\_command\<close>

text \<open>\<open>split_text\<close> with its default \<open>chunk_size\<close>: slices of 4096 characters.\<close>

function chunks_4096 :: "string list \<Rightarrow> string list list" where
  "chunks_4096 cs = (if cs = [] then [] else take 4096 cs # chunks_4096 (drop 4096 cs))"
  by pat_completeness auto
termination
  by (relation "measure length") auto

definition split_text :: "string \<Rightarrow> string list" where
  "split_text t = map concat (chunks_4096 (utf8_chars t))"

text \<open>
  \<open>update.message.reply_text(t)\<close> where \<open>update.message\<close> may be absent (the command came in
  an edited message).
\<close>

definition message_reply :: "env \<Rightarrow> message_update \<Rightarrow> string \<Rightarrow> 'st \<Rightarrow> 'st result \<Rightarrow> 'st result" where
  "message_reply e upd t st k =
     (case mu_message upd of
        None \<Rightarrow> raise (AttributeError ''reply_text'') st
      | Some m \<Rightarrow> await (ReplyText t None None) (reply_text e t None None) st (\<lambda>_. k))"

fun reply_chunks :: "env \<Rightarrow> message_update \<Rightarrow> string list \<Rightarrow> 'st \<Rightarrow> 'st result" where
  "reply_chunks e upd [] st = ret st"
| "reply_chunks e upd (chunk # chunks) st =
     message_reply e upd chunk st (reply_chunks e upd chunks st)"

text \<open>Lines 409-420. The table is read under the name \<open>invite_links\<close>.\<close>

definition invite_command :: "env \<Rightarrow> message_update \<Rightarrow> py_globals \<Rightarrow> py_globals result" where
  "invite_command e upd g =
     (if mu_user_id upd \<noteq> ADMIN_ID then
        message_reply e upd ''You are not authorized to use this command.'' g (ret g)
      else case g ''invite_links'' of
        None \<Rightarrow> raise (NameError ''invite_links'') g
      | Some invite_links \<Rightarrow>
          if invite_links = [] then
            message_reply e upd ''No invite links have been created yet.'' g (ret g)
          else
            reply_chunks e upd
              (split_text
                 (concat (map (\<lambda>(ch_id, title, link).
                                 ''Channel/Group: '' @ title @ [CHR 0x0A] @ ''Invite Link: '' @ link
                                   @ [CHR 0x0A, CHR 0x0A])
                              invite_links)))
              g)"

section \<open>The application\<close>

text \<open>
  The state of the running bot: \<open>application.user_data\<close>, which hands each handler the
  dictionary of the update's user (empty for a user not seen before), and the module's
  globals.
\<close>

record bot_state =
  users :: "int \<Rightarrow> user_data"
  globals :: py_globals

definition empty_user_data :: user_data where
  "empty_user_data =
     \<lparr>sessions = Map.empty, awaiting_session_id = None, awaiting_post_session_id = None\<rparr>"

definition initial_state :: bot_state where
  "initial_state = \<lparr>users = (\<lambda>_. empty_user_data), globals = module_globals\<rparr>"

datatype update =
    MessageUpdate message_update
  | CallbackUpdate callback_update
  | InlineUpdate inline_update

text \<open>
  The handlers \<open>main\<close> registers, each run on the user data of the update's user: an
  update with a message goes to \<open>button_info_handler\<close> unless its message starts with a
  bot command (\<open>filters.ALL & ~filters.COMMAND\<close>), to \<open>invite_command\<close> for the command
  \<open>/invite\<close>, and to no handler for another command. An exception that leaves a handler
  is logged by \<open>error_handler\<close>; the state reached stays.
\<close>

definition with_user :: "bot_state \<Rightarrow> int \<Rightarrow> user_data result \<Rightarrow> bot_state result" where
  "with_user st uid r =
     (case r of (cs, out, ud) \<Rightarrow> (cs, out, st\<lparr>users := (users st)(uid := ud)\<rparr>))"

fun dispatch :: "env \<Rightarrow> update \<Rightarrow> bot_state \<Rightarrow> bot_state result" where
  "dispatch e (MessageUpdate upd) st =
     (case mu_command upd of
        NoCommand \<Rightarrow>
          with_user st (mu_user_id upd) (button_info_handler e upd (users st (mu_user_id upd)))
      | InviteCommand \<Rightarrow>
          (case invite_command e upd (globals st) of (cs, out, g) \<Rightarrow> (cs, out, st\<lparr>globals := g\<rparr>))
      | OtherCommand \<Rightarrow> ret st)"
| "dispatch e (CallbackUpdate upd) st =
     (case button_callback e upd (users st (cq_user_id upd), globals st) of
        (cs, out, (ud, g)) \<Rightarrow> (cs, out, \<lparr>users = (users st)(cq_user_id upd := ud), globals = g\<rparr>))"
| "dispatch e (InlineUpdate upd) st =
     with_user st (iq_user_id upd) (inline_query_handler e upd (users st (iq_user_id upd)))"

fun run :: "(env \<times> update) list \<Rightarrow> bot_state \<Rightarrow> bot_state" where
  "run [] st = st"
| "run ((e, u) # evs) st = run evs (state_of (dispatch e u st))"

section \<open>Statements of the specification\<close>


text \<open>
  A callback payload, split into its fields, that is too short for its action: fewer than
  three fields, \<open>add_to_row\<close> without a row index or with one for which \<open>int\<close> raises
  \<open>ValueError\<close>, \<open>post_confirm\<close> without a decision, or the decision \<open>yes\<close> without a
  destination.
\<close>

definition short_payload :: "env \<Rightarrow> string list \<Rightarrow> bool" where
  "short_payload e data =
     (length data < 3
      \<or> (data ! 2 = ''add_to_row'' \<and> (length data < 4 \<or> isl (py_int e (data ! 3))))
      \<or> (data ! 2 = ''post_confirm'' \<and> (length data < 4 \<or> (data ! 3 = ''yes'' \<and> length data < 5))))"

text \<open>
  The URL whitelist as an invariant: every button of every row of every stored session
  of every user has a whitelisted URL.
\<close>

definition rows_urls_ok :: "btn list list \<Rightarrow> bool" where
  "rows_urls_ok rows = list_all (list_all (\<lambda>b. is_valid_url (btn_url b))) rows"

definition user_urls_ok :: "user_data \<Rightarrow> bool" where
  "user_urls_ok ud = (\<forall>sid s. sessions ud sid = Some s \<longrightarrow> rows_urls_ok (inline_buttons s))"

definition state_urls_ok :: "bot_state \<Rightarrow> bool" where
  "state_urls_ok st = (\<forall>uid. user_urls_ok (users st uid))"

text \<open>
  An update whose forwarded message, if it is one, carries only URL buttons that
  \<open>start_message\<close> keeps with a whitelisted URL.
\<close>

fun forwarded_urls_ok :: "update \<Rightarrow> bool" where
  "forwarded_urls_ok (MessageUpdate upd) =
     (case mu_message upd of
        None \<Rightarrow> True
      | Some m \<Rightarrow> m_forward_date m \<longrightarrow> rows_urls_ok (extract_buttons (m_reply_markup m)))"
| "forwarded_urls_ok (CallbackUpdate upd) = True"
| "forwarded_urls_ok (InlineUpdate upd) = True"

text \<open>
  The invariant of the pending button input: a session that awaits button info has a
  target row between 0 and its number of rows, and the session the user's pointer names,
  if it is in the store, awaits button info.
\<close>

definition target_in_range :: "session \<Rightarrow> bool" where
  "target_in_range s =
     (case target_row s of
        None \<Rightarrow> False
      | Some t \<Rightarrow> 0 \<le> t \<and> t \<le> int (length (inline_buttons s)))"

definition user_target_ok :: "user_data \<Rightarrow> bool" where
  "user_target_ok ud =
     (\<forall>sid s. sessions ud sid = Some s \<longrightarrow>
        (awaiting_button_info s \<longrightarrow> target_in_range s) \<and>
        (awaiting_session_id ud = Some sid \<longrightarrow> awaiting_button_info s))"

definition state_target_ok :: "bot_state \<Rightarrow> bool" where
  "state_target_ok st = (\<forall>uid. user_target_ok (users st uid))"

text \<open>
  An \<open>add_to_row\<close> callback for a stored session carries a row index that \<open>int\<close> reads as
  a number between 0 and the number of rows the session has when the callback arrives
  (as every payload of \<open>build_editing_keyboard\<close> does); \<open>row_indices_ok\<close> asks it of each
  update of a run, in the state the update meets.
\<close>

fun row_index_ok :: "env \<Rightarrow> bot_state \<Rightarrow> update \<Rightarrow> bool" where
  "row_index_ok e st (CallbackUpdate upd) =
     (let data = split_on CHR '':'' (cq_data upd) in
      if 4 \<le> length data \<and> data ! 0 = ''session'' \<and> data ! 2 = ''add_to_row'' then
        (case sessions (users st (cq_user_id upd)) (data ! 1) of
           None \<Rightarrow> True
         | Some s \<Rightarrow>
             (case py_int e (data ! 3) of
                Inl ex \<Rightarrow> True
              | Inr row_index \<Rightarrow> 0 \<le> row_index \<and> row_index \<le> int (length (inline_buttons s))))
      else True)"
| "row_index_ok e st (MessageUpdate upd) = True"
| "row_index_ok e st (InlineUpdate upd) = True"

fun row_indices_ok :: "(env \<times> update) list \<Rightarrow> bot_state \<Rightarrow> bool" where
  "row_indices_ok [] st = True"
| "row_indices_ok ((e, u) # evs) st =
     (row_index_ok e st u \<and> row_indices_ok evs (state_of (dispatch e u st)))"







section \<open>Concrete inputs\<close>

text \<open>
  The decimal digits beyond ASCII of Unicode 14.0, the database of Python 3.11: the code
  points of the zeros; the digits 1 to 9 of a script follow its zero.
\<close>

definition decimal_zeros :: "nat list" where
  "decimal_zeros =
     [1632, 1776, 1984, 2406, 2534, 2662, 2790, 2918, 3046, 3174, 3302, 3430, 3558, 3664, 3792,
      3872, 4160, 4240, 6112, 6160, 6470, 6608, 6784, 6800, 6992, 7088, 7232, 7248, 42528,
      43216, 43264, 43472, 43504, 43600, 44016, 65296, 66720, 68912, 69734, 69872, 69942,
      70096, 70384, 70736, 70864, 71248, 71360, 71472, 71904, 72016, 72784, 73040, 73120,
      92768, 92864, 93008, 120782, 120792, 120802, 120812, 120822, 123200, 123632, 125264,
      130032]"

definition unicode_14_decimal :: "nat \<Rightarrow> nat option" where
  "unicode_14_decimal n =
     (case filter (\<lambda>z. z \<le> n \<and> n < z + 10) decimal_zeros of
        [] \<Rightarrow> None
      | z # zs \<Rightarrow> Some (n - z))"

text \<open>
  An outside where every request succeeds and the user is an admin of every chat, on
  Python 3.11 with its default limit of 4300 digits. Its text for the \<open>ValueError\<close> of
  \<open>int\<close> is the one Python gives for a literal of printable ASCII characters without
  quotes or backslashes, at most 200 characters long and within the limit of digits.
\<close>

definition ok_env :: env where
  "ok_env =
     \<lparr>query_answer = Inr (),
      edit_message_text = (\<lambda>_. Inr ()),
      send_message = (\<lambda>_ _ _. Inr ()),
      copy_message = (\<lambda>_ _ _ _. Inr 100),
      reply_text = (\<lambda>_ _ _. Inr ()),
      create_chat_invite_link = (\<lambda>_. Inr ''https://t.me/+abc''),
      get_chat = (\<lambda>_. Inr (Some ''News'')),
      get_chat_member = (\<lambda>_ _. Inr ''administrator''),
      inline_query_answer = (\<lambda>_ _ _. Inr ()),
      uuid4_hex = ''0123456789abcdef0123456789abcdef'',
      unicode_decimal = unicode_14_decimal,
      int_max_str_digits = 4300,
      int_error_text =
        (\<lambda>s. ''invalid literal for int() with base 10: '' @ [CHR 0x27] @ s @ [CHR 0x27])\<rparr>"

text \<open>
  A finalized session of user 7 with one button, as left by the messages \<open>Hello\<close>,
  \<open>Go https://go.dev\<close> and the action \<open>done\<close>.
\<close>

definition demo_session :: session where
  "demo_session =
     \<lparr>session_id = ''42_012345'', chat_id = 7, text_s = ''Hello'',
      inline_buttons = [[\<lparr>btn_text = ''Go'', btn_url = ''https://go.dev''\<rparr>]],
      awaiting_button_info = False, target_row = None,
      last_message_id = Some 100, is_media = False,
      original_message_id = 42, final_message_id = Some 100,
      awaiting_post = False, post_channel = None\<rparr>"

definition demo_user :: user_data where
  "demo_user =
     \<lparr>sessions = [''42_012345'' \<mapsto> demo_session],
      awaiting_session_id = None, awaiting_post_session_id = None\<rparr>"

definition private_callback :: "string \<Rightarrow> callback_update" where
  "private_callback d = \<lparr>cq_chat_type = Some ''private'', cq_user_id = 7, cq_data = d\<rparr>"

definition private_text :: "string \<Rightarrow> message_update" where
  "private_text t =
     \<lparr>mu_chat_type = ''private'', mu_user_id = 7,
      mu_message = Some \<lparr>m_message_id = 42, m_chat_id = 7, m_text = Some t, m_caption = None,
                          m_forward_date = False, m_forward_from_chat = None,
                          m_reply_markup = None\<rparr>,
      mu_command = NoCommand\<rparr>"


text \<open>As \<open>ok_env\<close>, but every \<open>send_message\<close> raises.\<close>

definition failing_send_env :: env where
  "failing_send_env = ok_env\<lparr>send_message := (\<lambda>_ _ _. Inl (TelegramError ''Timed out''))\<rparr>"

text \<open>As \<open>ok_env\<close>, but the answer to the callback query raises.\<close>

definition failing_answer_env :: env where
  "failing_answer_env = ok_env\<lparr>query_answer := Inl (TelegramError ''Query is too old'')\<rparr>"

text \<open>User 7 after the action \<open>post\<close> on the finalized session: a destination is awaited.\<close>

definition posting_user :: user_data where
  "posting_user =
     \<lparr>sessions = [''42_012345'' \<mapsto> demo_session\<lparr>awaiting_post := True\<rparr>],
      awaiting_session_id = None, awaiting_post_session_id = Some ''42_012345''\<rparr>"

text \<open>
  User 7 after the message \<open>Hello\<close> and the action \<open>new_row\<close>: the session has no button
  yet and awaits the button info for row 0.
\<close>

definition editing_session :: session where
  "editing_session =
     \<lparr>session_id = ''42_012345'', chat_id = 7, text_s = ''Hello'',
      inline_buttons = [],
      awaiting_button_info = True, target_row = Some 0,
      last_message_id = Some 100, is_media = False,
      original_message_id = 42, final_message_id = None,
      awaiting_post = False, post_channel = None\<rparr>"

definition labelling_user :: user_data where
  "labelling_user =
     \<lparr>sessions = [''42_012345'' \<mapsto> editing_session],
      awaiting_session_id = Some ''42_012345'', awaiting_post_session_id = None\<rparr>"

text \<open>
  Two users: user 7 owns the finalized session, user 8 has no session. User 8 sends a
  callback and a share query that carry the id of the session of user 7.
\<close>

definition two_users :: bot_state where
  "two_users =
     \<lparr>users = (\<lambda>_. empty_user_data)(7 := demo_user), globals = module_globals\<rparr>"

definition callback_of_8 :: callback_update where
  "callback_of_8 =
     \<lparr>cq_chat_type = Some ''private'', cq_user_id = 8, cq_data = ''session:42_012345:done''\<rparr>"

definition share_query_of_8 :: inline_update where
  "share_query_of_8 = \<lparr>iq_user_id = 8, iq_query = ''share_42_012345''\<rparr>"

text \<open>Two forwarded messages with one URL button each, a web link and an FTP link.\<close>

definition forwarded_https :: message_update where
  "forwarded_https =
     \<lparr>mu_chat_type = ''private'', mu_user_id = 7,
      mu_message = Some \<lparr>m_message_id = 42, m_chat_id = 7, m_text = Some ''Hello'', m_caption = None,
                          m_forward_date = True, m_forward_from_chat = None,
                          m_reply_markup = Some [[\<lparr>ib_text = ''Site'', ib_url = Some ''https://t.me/x''\<rparr>]]\<rparr>,
      mu_command = NoCommand\<rparr>"

definition forwarded_ftp :: message_update where
  "forwarded_ftp =
     \<lparr>mu_chat_type = ''private'', mu_user_id = 7,
      mu_message = Some \<lparr>m_message_id = 42, m_chat_id = 7, m_text = Some ''Hello'', m_caption = None,
                          m_forward_date = True, m_forward_from_chat = None,
                          m_reply_markup = Some [[\<lparr>ib_text = ''Files'', ib_url = Some ''ftp://x''\<rparr>]]\<rparr>,
      mu_command = NoCommand\<rparr>"

text \<open>
  The bot with user 7 alone; the session of user 7 after the message \<open>Hello\<close>, and after
  its first button; an update of user 7 paired with the outside that answers it.
\<close>

definition one_user :: "user_data \<Rightarrow> bot_state" where
  "one_user ud = \<lparr>users = (\<lambda>_. empty_user_data)(7 := ud), globals = module_globals\<rparr>"

definition fresh_session :: session where
  "fresh_session =
     \<lparr>session_id = ''42_012345'', chat_id = 7, text_s = ''Hello'',
      inline_buttons = [],
      awaiting_button_info = False, target_row = None,
      last_message_id = Some 100, is_media = False,
      original_message_id = 42, final_message_id = None,
      awaiting_post = False, post_channel = None\<rparr>"

definition one_button_session :: session where
  "one_button_session =
     fresh_session\<lparr>inline_buttons := [[\<lparr>btn_text = ''Go'', btn_url = ''https://go.dev''\<rparr>]]\<rparr>"

definition says :: "string \<Rightarrow> env \<times> update" where
  "says t = (ok_env, MessageUpdate (private_text t))"

definition presses :: "string \<Rightarrow> env \<times> update" where
  "presses d = (ok_env, CallbackUpdate (private_callback d))"


section \<open>Evaluation lemmas\<close>

lemmas run_defs =
  ret_def raise_def prepend_def await_def calls_of_def raised_of_def state_of_def with_globals_def

lemmas py_defs =
  py_int_def int_literal_def ascii_of_def c_isspace_def code_point_def is_continuation_def
  strip_def is_space_char_def py_isspace_def is_digit_def digits_val_def digit_val_def
  startswith_def rsplit_space1_def is_valid_url_def

lemmas demo_defs =
  ok_env_def demo_session_def demo_user_def private_callback_def private_text_def

lemma py_int_minus_1001: "py_int e ''-1001'' = Inr (- 1001)"
  by (simp add: py_defs)

lemma try_post_raise_globals:
  "try_post e dest s g = (cs, Some ex, g1) \<Longrightarrow> g1 = g"
  by (auto simp: try_post_def run_defs split: option.splits sum.splits)

lemma session_not_found_calls:
  assumes "cq_chat_type upd = Some ''private''" "query_answer e = Inr ()"
    and "split_on CHR '':'' (cq_data upd) = ''session'' # sid # action # rest"
    and "sessions (fst st) sid = None"
  shows "calls_of (button_callback e upd st) = [AnswerCallback, EditMessageText ''Session not found.'']"
    and "state_of (button_callback e upd st) = st"
  using assms by (auto simp: button_callback_def run_defs split: sum.splits)

lemma button_callback_post_confirm:
  assumes "cq_chat_type upd = Some ''private''" "query_answer e = Inr ()"
    and "split_on CHR '':'' (cq_data upd) = ''session'' # sid # ''post_confirm'' # rest"
    and "sessions ud sid = Some s"
  shows "button_callback e upd (ud, g) =
           prepend [AnswerCallback]
             (post_confirm_action e (''session'' # sid # ''post_confirm'' # rest) sid s (ud, g))"
  using assms by (simp add: button_callback_def await_def)

lemma prepend_simps:
  "calls_of (prepend cs r) = cs @ calls_of r"
  "raised_of (prepend cs r) = raised_of r"
  "state_of (prepend cs r) = state_of r"
  by (auto simp: run_defs split: prod.splits)

lemma str_int_minus_1001: "str_int (- 1001) = ''-1001''"
  by code_simp

lemma py_int_strip_minus_1001: "py_int e (strip ''-1001'') = Inr (- 1001)"
  by (simp add: py_defs)

subsection \<open>The builtins beyond ASCII digits and spaces\<close>

text \<open>
  \<open>strip\<close> removes an ideographic space (U+3000) and a no-break space (U+00A0). \<open>int\<close> reads
  the Arabic-Indic digit three (U+0663), fullwidth digits (U+FF11 to U+FF13) and digits
  between a no-break space and an ideographic space, and raises \<open>ValueError\<close> for a digit
  followed by the unit separator (U+001F), which \<open>strip\<close> removes and \<open>int\<close> does not skip.
\<close>

lemma strip_ideographic_space: "strip (''a '' @ [CHR 0xE3, CHR 0x80, CHR 0x80]) = ''a''"
  by (simp add: py_defs)

lemma strip_no_break_space:
  "strip (''Go https://go.dev'' @ [CHR 0xC2, CHR 0xA0]) = ''Go https://go.dev''"
  by (simp add: py_defs)

lemma py_int_arabic_indic_3: "py_int ok_env [CHR 0xD9, CHR 0xA3] = Inr 3"
  by (simp add: py_defs ok_env_def unicode_14_decimal_def decimal_zeros_def)

lemma py_int_fullwidth_123:
  "py_int ok_env [CHR 0xEF, CHR 0xBC, CHR 0x91, CHR 0xEF, CHR 0xBC, CHR 0x92, CHR 0xEF, CHR 0xBC, CHR 0x93]
     = Inr 123"
  by (simp add: py_defs ok_env_def unicode_14_decimal_def decimal_zeros_def)

lemma py_int_padded_12:
  "py_int ok_env ([CHR 0xC2, CHR 0xA0] @ ''12'' @ [CHR 0xE3, CHR 0x80, CHR 0x80]) = Inr 12"
  by (simp add: py_defs ok_env_def unicode_14_decimal_def decimal_zeros_def)

lemma py_int_unit_separator: "isl (py_int e (''0'' @ [CHR 0x1F]))"
  by (simp add: py_defs)

section \<open>The confirmed post and the invite-link table\<close>

lemma split_confirm_yes:
  "split_on CHR '':'' ''session:42_012345:post_confirm:yes:-1001'' =
     [''session'', ''42_012345'', ''post_confirm'', ''yes'', ''-1001'']"
  by simp

text \<open>
  Claim C1. The claim: a confirmed post re-emits the content into the destination, tells
  the owner of the success, creates an invite link and records (title, link) in the
  invite-link table under the destination id. The code at a confirmation for chat
  \<open>-1001\<close>, with every request succeeding: the message is posted, the owner is told of
  the success, the link is created and the title read, and then the assignment
  \<open>invite_links[int(dest)] = ...\<close> raises \<open>NameError\<close>, since the table is bound to the name
  \<open>invite_links_button_bot\<close>. The owner is sent the failure text after the success text,
  and the globals (the table among them) are as before.
\<close>

theorem confirm_yes_records_no_invite_link:
  "button_callback ok_env (private_callback ''session:42_012345:post_confirm:yes:-1001'')
     (demo_user, module_globals) =
   ([AnswerCallback,
     CopyMessage (- 1001) 7 42 [[UrlButton ''Go'' ''https://go.dev'']],
     SendMessage 7 ''Message posted successfully!'' None,
     CreateChatInviteLink (- 1001),
     GetChat (- 1001),
     SendMessage 7
       (''Failed to post message: name '' @ [CHR 0x27] @ ''invite_links'' @ [CHR 0x27]
          @ '' is not defined'') None],
    None,
    (del_session ''42_012345'' demo_user, module_globals))"
  by (simp add: button_callback_def post_confirm_action_def try_post_def demo_defs run_defs
      split_confirm_yes py_int_minus_1001 module_globals_def build_final_keyboard_def
      url_buttons_def del_session_def)

section \<open>Confirmation: failures and the removal of the session\<close>

lemma split_confirm_no:
  "split_on CHR '':'' ''session:42_012345:post_confirm:no'' =
     [''session'', ''42_012345'', ''post_confirm'', ''no'']"
  by simp

text \<open>
  Claim C2, as stated: after every confirmation on an existing session (yes or no, with
  or without failures) the session is removed. It fails where the notice to the owner
  itself raises: the answer \<open>no\<close> with a \<open>send_message\<close> that times out leaves the handler
  with that exception before line 282, and the session is still in the store.
\<close>

theorem cancel_notice_failure_keeps_session:
  "raised_of (button_callback failing_send_env (private_callback ''session:42_012345:post_confirm:no'')
       (demo_user, module_globals)) = Some (TelegramError ''Timed out'')
   \<and> sessions (fst (state_of (button_callback failing_send_env
         (private_callback ''session:42_012345:post_confirm:no'') (demo_user, module_globals))))
       ''42_012345'' = Some demo_session"
  by (simp add: button_callback_def post_confirm_action_def failing_send_env_def demo_defs run_defs split_confirm_no)

lemma post_confirm_action_cases:
  assumes "length data \<ge> 4" "data ! 3 = ''no'' \<or> (data ! 3 = ''yes'' \<and> length data \<ge> 5)"
    and "r = post_confirm_action e data sid s (ud, g)"
  shows "(raised_of r = None \<longrightarrow> sessions (fst (state_of r)) sid = None)"
    and "(\<forall>ex. raised_of r = Some ex \<longrightarrow> state_of r = (ud, g) \<and>
           calls_of r \<noteq> [] \<and>
           (\<exists>txt. last (calls_of r) = SendMessage (chat_id s) txt None \<and>
                  send_message e (chat_id s) txt None = Inl ex))"
    and "(\<forall>ex. data ! 3 = ''yes'' \<longrightarrow> raised_of (try_post e (data ! 4) s g) = Some ex \<longrightarrow>
           SendMessage (chat_id s) (''Failed to post message: '' @ str_exn ex) None \<in> set (calls_of r))"
  using assms
  by (auto simp: post_confirm_action_def run_defs del_session_def split: prod.splits option.splits sum.splits dest: try_post_raise_globals)

text \<open>
  Before it reads the payload the handler returns at once for a chat that is not
  private, and an exception of \<open>query.answer()\<close> leaves it; the state is as before.
\<close>

lemma button_callback_other_chat:
  "cq_chat_type upd = Some ty \<Longrightarrow> ty \<noteq> ''private'' \<Longrightarrow> button_callback e upd st = ret st"
  by (simp add: button_callback_def)

lemma button_callback_answer_raises:
  "cq_chat_type upd = Some ''private'' \<Longrightarrow> query_answer e = Inl ex \<Longrightarrow>
     button_callback e upd st = ([AnswerCallback], Some ex, st)"
  by (simp add: button_callback_def run_defs)

text \<open>
  Claim C2, amended. For a confirmation (\<open>no\<close>, or \<open>yes\<close> with a destination) on an existing
  session, received in a private chat, once \<open>query.answer()\<close> has returned:
  \<^item> when the handler returns, the session is removed, and a second confirmation with
    the same payload, answered in its turn, finds no session (its only requests are the
    answer and the edit \<open>Session not found.\<close>);
  \<^item> the only exception that leaves the handler is one raised by the last notice to
    the owner itself (the failure report of the yes branch, the cancellation notice of
    the no branch); then the state is as before, the session still stored;
  \<^item> in the yes branch, whatever the body of the \<open>try\<close> raises (the \<open>ValueError\<close> of
    \<open>int(dest)\<close>, posting, notifying, the invite link, the title, the recording) is
    reported to the owner with its text.
\<close>

theorem confirm_post_removes_session:
  assumes "cq_chat_type upd = Some ''private''" and "query_answer e = Inr ()"
    and "query_answer e2 = Inr ()"
    and "split_on CHR '':'' (cq_data upd) = ''session'' # sid # ''post_confirm'' # decision # rest"
    and "decision = ''no'' \<or> (decision = ''yes'' \<and> rest \<noteq> [])"
    and "sessions ud sid = Some s"
    and "r = button_callback e upd (ud, g)"
  shows "(raised_of r = None \<longrightarrow>
            sessions (fst (state_of r)) sid = None \<and>
            calls_of (button_callback e2 upd (state_of r)) =
              [AnswerCallback, EditMessageText ''Session not found.''])
       \<and> (\<forall>ex. raised_of r = Some ex \<longrightarrow>
            state_of r = (ud, g) \<and>
            (\<exists>txt. last (calls_of r) = SendMessage (chat_id s) txt None \<and>
                   send_message e (chat_id s) txt None = Inl ex))
       \<and> (\<forall>ex. decision = ''yes'' \<longrightarrow> raised_of (try_post e (hd rest) s g) = Some ex \<longrightarrow>
            SendMessage (chat_id s) (''Failed to post message: '' @ str_exn ex) None
              \<in> set (calls_of r))"
proof -
  let ?data = "''session'' # sid # ''post_confirm'' # decision # rest"
  let ?p = "post_confirm_action e ?data sid s (ud, g)"
  have r: "r = prepend [AnswerCallback] ?p"
    using assms by (simp add: button_callback_post_confirm)
  have len: "length ?data \<ge> 4" by simp
  have dec: "?data ! 3 = ''no'' \<or> (?data ! 3 = ''yes'' \<and> length ?data \<ge> 5)"
    using assms(5) by (cases rest) auto
  note c = post_confirm_action_cases [OF len dec refl, where e = e and sid = sid and s = s and ud = ud and g = g]
  have a: "raised_of r = None \<longrightarrow> sessions (fst (state_of r)) sid = None"
    using c(1) by (simp add: r prepend_simps)
  have a2: "raised_of r = None \<longrightarrow>
      calls_of (button_callback e2 upd (state_of r)) =
        [AnswerCallback, EditMessageText ''Session not found.'']"
    using a session_not_found_calls(1) [OF assms(1) assms(3) assms(4), of "state_of r"] by simp
  have b: "\<forall>ex. raised_of r = Some ex \<longrightarrow>
            state_of r = (ud, g) \<and>
            (\<exists>txt. last (calls_of r) = SendMessage (chat_id s) txt None \<and>
                   send_message e (chat_id s) txt None = Inl ex)"
    using c(2) by (simp add: r prepend_simps)
  have d: "\<forall>ex. decision = ''yes'' \<longrightarrow> raised_of (try_post e (hd rest) s g) = Some ex \<longrightarrow>
            SendMessage (chat_id s) (''Failed to post message: '' @ str_exn ex) None
              \<in> set (calls_of r)"
  proof (intro allI impI)
    fix ex assume y: "decision = ''yes''" and t: "raised_of (try_post e (hd rest) s g) = Some ex"
    from y assms(5) have "rest \<noteq> []" by auto
    then have "?data ! 4 = hd rest" by (cases rest) auto
    with c(3) y t show "SendMessage (chat_id s) (''Failed to post message: '' @ str_exn ex) None
              \<in> set (calls_of r)"
      by (simp add: r prepend_simps)
  qed
  from a a2 b d show ?thesis by blast
qed

theorem confirm_post_removes_session_witness:
  "raised_of (button_callback ok_env (private_callback ''session:42_012345:post_confirm:yes:-1001'')
      (demo_user, module_globals)) = None
   \<and> sessions (fst (state_of (button_callback ok_env
        (private_callback ''session:42_012345:post_confirm:yes:-1001'') (demo_user, module_globals))))
        ''42_012345'' = None
   \<and> calls_of (button_callback ok_env (private_callback ''session:42_012345:post_confirm:yes:-1001'')
        (state_of (button_callback ok_env
           (private_callback ''session:42_012345:post_confirm:yes:-1001'') (demo_user, module_globals))))
      = [AnswerCallback, EditMessageText ''Session not found.'']
   \<and> SendMessage 7 (''Failed to post message: '' @ str_exn (NameError ''invite_links'')) None
       \<in> set (calls_of (button_callback ok_env
            (private_callback ''session:42_012345:post_confirm:yes:-1001'') (demo_user, module_globals)))"
proof -
  let ?upd = "private_callback ''session:42_012345:post_confirm:yes:-1001''"
  let ?r = "button_callback ok_env ?upd (demo_user, module_globals)"
  have ev: "?r =
   ([AnswerCallback,
     CopyMessage (- 1001) 7 42 [[UrlButton ''Go'' ''https://go.dev'']],
     SendMessage 7 ''Message posted successfully!'' None,
     CreateChatInviteLink (- 1001),
     GetChat (- 1001),
     SendMessage 7
       (''Failed to post message: name '' @ [CHR 0x27] @ ''invite_links'' @ [CHR 0x27]
          @ '' is not defined'') None],
    None,
    (del_session ''42_012345'' demo_user, module_globals))"
    by (simp add: button_callback_def post_confirm_action_def try_post_def demo_defs run_defs
      split_confirm_yes py_int_minus_1001 module_globals_def build_final_keyboard_def
      url_buttons_def del_session_def)
  have h1: "cq_chat_type ?upd = Some ''private''" by (simp add: private_callback_def)
  have h2: "query_answer ok_env = Inr ()" by (simp add: ok_env_def)
  have h3: "split_on CHR '':'' (cq_data ?upd) =
      ''session'' # ''42_012345'' # ''post_confirm'' # ''yes'' # [''-1001'']"
    by (simp add: private_callback_def split_confirm_yes)
  have h4: "''yes'' = ''no'' \<or> (''yes'' = ''yes'' \<and> [''-1001''] \<noteq> [])" by simp
  have h5: "sessions demo_user ''42_012345'' = Some demo_session" by (simp add: demo_user_def)
  have t: "raised_of (try_post ok_env (hd [''-1001'']) demo_session module_globals)
      = Some (NameError ''invite_links'')"
    by (simp add: try_post_def py_int_minus_1001 run_defs demo_defs module_globals_def)
  have n: "raised_of ?r = None" by (simp add: ev raised_of_def)
  from confirm_post_removes_session [OF h1 h2 h2 h3 h4 h5 refl, of module_globals] n t
  show ?thesis by (simp add: demo_session_def)
qed

section \<open>An invalid post destination\<close>

lemma py_int_abc: "py_int e (strip ''abc'') = Inl (ValueError (int_error_text e ''abc''))"
  by (simp add: py_defs)

text \<open>
  Claim C3, as stated: on a destination text that is not an integer the error is
  reported and the post flow is cleared (pointer removed, post state reset), so that the
  user has to start the flow again. On the code the text \<open>abc\<close> is answered with the
  error and nothing is cleared: the pointer is still set, the session still awaits the
  post, and the destination \<open>-1001\<close> sent next is taken without a new \<open>post\<close> action.
\<close>

theorem invalid_destination_keeps_post_flow:
  "calls_of (button_info_handler ok_env (private_text ''abc'') posting_user) =
     [ReplyText ''Invalid channel/group ID. It should be numeric.'' None None]
   \<and> awaiting_post_session_id (state_of (button_info_handler ok_env (private_text ''abc'') posting_user))
       = Some ''42_012345''
   \<and> map_option awaiting_post
       (sessions (state_of (button_info_handler ok_env (private_text ''abc'') posting_user)) ''42_012345'')
       = Some True
   \<and> calls_of (button_info_handler ok_env (private_text ''-1001'')
         (state_of (button_info_handler ok_env (private_text ''abc'') posting_user))) =
     [GetChatMember (- 1001) 7,
      ReplyText ''Do you want to post the final message to channel/group -1001?''
        (Some [[CallbackButton ''Yes'' ''session:42_012345:post_confirm:yes:-1001'',
                CallbackButton ''No'' ''session:42_012345:post_confirm:no'']])
        (Some 100)]"
proof -
  have r: "button_info_handler ok_env (private_text ''abc'') posting_user =
      ([ReplyText ''Invalid channel/group ID. It should be numeric.'' None None], None, posting_user)"
    by (simp add: button_info_handler_def post_destination_def posting_user_def demo_defs run_defs
        py_int_abc)
  have r2: "calls_of (button_info_handler ok_env (private_text ''-1001'') posting_user) =
     [GetChatMember (- 1001) 7,
      ReplyText ''Do you want to post the final message to channel/group -1001?''
        (Some [[CallbackButton ''Yes'' ''session:42_012345:post_confirm:yes:-1001'',
                CallbackButton ''No'' ''session:42_012345:post_confirm:no'']])
        (Some 100)]"
    by (simp add: button_info_handler_def post_destination_def check_admin_def posting_user_def
        demo_defs run_defs py_int_strip_minus_1001 str_int_minus_1001 build_yes_no_keyboard_def)
  have s: "state_of (button_info_handler ok_env (private_text ''abc'') posting_user) = posting_user"
    by (simp add: r state_of_def)
  have c: "calls_of (button_info_handler ok_env (private_text ''abc'') posting_user) =
     [ReplyText ''Invalid channel/group ID. It should be numeric.'' None None]"
    by (simp add: r calls_of_def)
  show ?thesis
    unfolding s c using r2 by (simp add: posting_user_def demo_session_def)
qed

text \<open>
  Claim C3, amended. For a message in a private chat received while the post
  destination is awaited for a session that is in the store: if it carries no forwarded
  chat and its text is missing, empty, or such that \<open>int\<close> raises \<open>ValueError\<close> on the
  stripped text, the handler makes exactly one request, the reply with the error text
  (lines 312 and 317), and leaves the state unchanged, whether the reply returns or
  raises: the pointer stays set and the session keeps awaiting the post, so another
  destination can be sent at once.
\<close>

theorem invalid_destination_reported_state_kept:
  assumes "mu_chat_type upd = ''private''" and "mu_message upd = Some m"
    and "awaiting_post_session_id ud = Some sid" and "sessions ud sid = Some s"
    and "m_forward_from_chat m = None"
    and "\<forall>t. m_text m = Some t \<longrightarrow> isl (py_int e (strip t))"
  shows "calls_of (button_info_handler e upd ud) =
           [ReplyText (if m_text m = None \<or> m_text m = Some []
                       then ''Invalid input for channel/group ID.''
                       else ''Invalid channel/group ID. It should be numeric.'') None None]
         \<and> state_of (button_info_handler e upd ud) = ud"
  using assms
  by (auto simp: button_info_handler_def post_destination_def run_defs split: sum.splits option.splits)

theorem invalid_destination_reported_state_kept_witness:
  "calls_of (button_info_handler ok_env (private_text ''abc'') posting_user) =
     [ReplyText ''Invalid channel/group ID. It should be numeric.'' None None]
   \<and> state_of (button_info_handler ok_env (private_text ''abc'') posting_user) = posting_user"
proof -
  have h: "\<forall>t. m_text (the (mu_message (private_text ''abc''))) = Some t
             \<longrightarrow> isl (py_int ok_env (strip t))"
    by (simp add: private_text_def py_int_abc)
  from invalid_destination_reported_state_kept [of "private_text ''abc''" "the (mu_message (private_text ''abc''))"
      posting_user "''42_012345''" "demo_session\<lparr>awaiting_post := True\<rparr>" ok_env] h
  show ?thesis by (simp add: private_text_def posting_user_def)
qed

section \<open>The split of the button text\<close>









section \<open>The action done\<close>



lemma split_done:
  "split_on CHR '':'' ''session:42_012345:done'' = [''session'', ''42_012345'', ''done'']"
  by simp


section \<open>Callback payloads that are too short\<close>

lemma add_row_action_short:
  assumes "data ! 2 = ''add_to_row''" and "length data < 4 \<or> isl (py_int e (data ! 3))"
  shows "add_row_action e data sid s ud = ret ud"
  using assms by (auto simp: add_row_action_def split: sum.splits)

lemma post_confirm_action_short:
  assumes "length data < 4 \<or> (data ! 3 = ''yes'' \<and> length data < 5)"
  shows "post_confirm_action e data sid s st = ret st"
  using assms by (auto simp: post_confirm_action_def)

lemma short_payload_dispatch:
  assumes "short_payload e data"
  shows "(if length data < 3 \<or> data ! 0 \<noteq> ''session'' then ret st
          else case sessions (fst st) (data ! 1) of
            None \<Rightarrow>
              await (EditMessageText ''Session not found.'')
                (edit_message_text e ''Session not found.'') st (\<lambda>_. ret st)
          | Some session \<Rightarrow>
              if data ! 2 = ''add_to_row'' \<or> data ! 2 = ''new_row'' then
                with_globals (snd st) (add_row_action e data (data ! 1) session (fst st))
              else if data ! 2 = ''done'' then
                with_globals (snd st) (done_action e (data ! 1) session (fst st))
              else if data ! 2 = ''post'' then
                with_globals (snd st) (post_action e (data ! 1) session (fst st))
              else if data ! 2 = ''post_confirm'' then
                post_confirm_action e data (data ! 1) session st
              else ret st)
         = (if length data < 3 \<or> data ! 0 \<noteq> ''session'' then ret st
            else case sessions (fst st) (data ! 1) of
              None \<Rightarrow>
                await (EditMessageText ''Session not found.'')
                  (edit_message_text e ''Session not found.'') st (\<lambda>_. ret st)
            | Some session \<Rightarrow> ret st)"
proof (cases "length data < 3 \<or> data ! 0 \<noteq> ''session''")
  case True
  then show ?thesis by simp
next
  case False
  then have l: "\<not> length data < 3" by simp
  show ?thesis
  proof (cases "data ! 2 = ''add_to_row''")
    case True
    with assms l have "length data < 4 \<or> isl (py_int e (data ! 3))"
      by (auto simp: short_payload_def)
    with True show ?thesis
      by (simp add: add_row_action_short with_globals_def ret_def split: option.splits)
  next
    case na: False
    with assms l have pc: "data ! 2 = ''post_confirm''"
      and sh: "length data < 4 \<or> (data ! 3 = ''yes'' \<and> length data < 5)"
      by (auto simp: short_payload_def)
    show ?thesis
      using pc sh by (simp add: post_confirm_action_short split: option.splits)
  qed
qed

text \<open>
  A row index in Arabic-Indic digits is an integer for \<open>int\<close>, and the payload is not short;
  the index \<open>0\<close> followed by the unit separator is none, and the payload is short.
\<close>

lemma arabic_indic_index_not_short:
  "\<not> short_payload ok_env [''session'', ''42_012345'', ''add_to_row'', [CHR 0xD9, CHR 0xA3]]"
  by (simp add: short_payload_def py_int_arabic_indic_3)

lemma unit_separator_index_short:
  "short_payload e [''session'', ''42_012345'', ''add_to_row'', ''0'' @ [CHR 0x1F]]"
  using py_int_unit_separator [of e] by (simp add: short_payload_def)

lemma split_add_to_row_short:
  "split_on CHR '':'' ''session:42_012345:add_to_row'' = [''session'', ''42_012345'', ''add_to_row'']"
  by simp

text \<open>
  Claim C9, as stated: for a payload that is too short for its action the handler changes
  no state and terminates normally, never with an exception. The first half holds. The
  second fails: the handler answers the callback query before it looks at the payload,
  and for \<open>add_to_row\<close> without a row index, with a \<open>query.answer()\<close> that raises (the
  query is too old), that exception leaves the handler.
\<close>

theorem short_payload_answer_failure_raises:
  "short_payload failing_answer_env (split_on CHR '':'' ''session:42_012345:add_to_row'')
   \<and> button_callback failing_answer_env (private_callback ''session:42_012345:add_to_row'')
        (demo_user, module_globals) =
       ([AnswerCallback], Some (TelegramError ''Query is too old''), (demo_user, module_globals))"
  by (simp add: short_payload_def split_add_to_row_short button_callback_def failing_answer_env_def
      demo_defs run_defs)

text \<open>
  Claim C9, amended. For a callback payload that is too short for its action (fewer than
  three fields, \<open>add_to_row\<close> without a row index or with one on which \<open>int\<close> raises
  \<open>ValueError\<close>, \<open>post_confirm\<close> without a decision, \<open>yes\<close> without a destination), whatever
  the outside answers: the state after the handler is the state before; the handler makes
  no request but the answer to the callback and, for a session id not in the store, the
  edit \<open>Session not found.\<close>; it returns normally whenever the update has a chat and these
  two requests return; and an exception that leaves it is the one of a missing chat or
  the one raised by one of these two requests, never one caused by the payload.
\<close>

theorem short_payload_is_noop:
  assumes "short_payload e (split_on CHR '':'' (cq_data upd))"
  shows "state_of (button_callback e upd st) = st
       \<and> set (calls_of (button_callback e upd st))
           \<subseteq> {AnswerCallback, EditMessageText ''Session not found.''}
       \<and> (cq_chat_type upd \<noteq> None \<and> query_answer e = Inr ()
            \<and> edit_message_text e ''Session not found.'' = Inr ()
          \<longrightarrow> raised_of (button_callback e upd st) = None)
       \<and> (\<forall>ex. raised_of (button_callback e upd st) = Some ex \<longrightarrow>
            (cq_chat_type upd = None \<and> ex = AttributeError ''type'')
            \<or> query_answer e = Inl ex
            \<or> edit_message_text e ''Session not found.'' = Inl ex)"
  unfolding button_callback_def Let_def short_payload_dispatch [OF assms]
  by (auto simp: run_defs split: option.splits sum.splits)

lemma split_add_to_row_x:
  "split_on CHR '':'' ''session:42_012345:add_to_row:x'' =
     [''session'', ''42_012345'', ''add_to_row'', ''x'']"
  by simp

lemma py_int_x: "py_int e ''x'' = Inl (ValueError (int_error_text e ''x''))"
  by (simp add: py_defs)

theorem short_payload_is_noop_witness:
  "state_of (button_callback ok_env (private_callback ''session:42_012345:add_to_row:x'')
      (demo_user, module_globals)) = (demo_user, module_globals)
   \<and> raised_of (button_callback ok_env (private_callback ''session:42_012345:add_to_row:x'')
      (demo_user, module_globals)) = None"
proof -
  have h: "short_payload ok_env (split_on CHR '':''
       (cq_data (private_callback ''session:42_012345:add_to_row:x'')))"
    by (simp add: private_callback_def split_add_to_row_x short_payload_def py_int_x)
  from short_payload_is_noop [OF h, of "(demo_user, module_globals)"]
  show ?thesis by (simp add: private_callback_def ok_env_def)
qed

section \<open>Lookups are scoped to the user\<close>

lemma inline_query_not_found:
  assumes "iq_query iu = ''share_'' @ sid" and "sessions ud sid = None"
  shows "inline_query_handler e iu ud = ([], None, ud)"
  using assms by (simp add: inline_query_handler_def startswith_def ret_def)

text \<open>
  Claim C10. Let the session id \<open>sid\<close> be in the store of user \<open>a\<close> and not in the store of
  another user \<open>b\<close>. A callback of \<open>b\<close> for \<open>sid\<close> (private chat, answered) is answered with
  \<open>Session not found.\<close> and an inline share query of \<open>b\<close> for \<open>sid\<close> makes no request and
  returns; both leave the whole state, the data of \<open>a\<close> included, as it was. The same
  holds, with the same requests and the same outcome, in any state \<open>st'\<close> that differs
  only in the data of \<open>a\<close>, with or without \<open>sid\<close> in it: the lookup does not read it.
\<close>

theorem lookup_scoped_per_user:
  assumes "a \<noteq> b" and "sessions (users st a) sid = Some s" and "sessions (users st b) sid = None"
    and "cq_user_id cu = b" and "cq_chat_type cu = Some ''private''"
    and "split_on CHR '':'' (cq_data cu) = ''session'' # sid # action # rest"
    and "query_answer e = Inr ()"
    and "iq_user_id iu = b" and "iq_query iu = ''share_'' @ sid"
    and "st' = st\<lparr>users := (users st)(a := ud_a)\<rparr>"
  shows "calls_of (dispatch e (CallbackUpdate cu) st) =
           [AnswerCallback, EditMessageText ''Session not found.'']
       \<and> state_of (dispatch e (CallbackUpdate cu) st) = st
       \<and> dispatch e (InlineUpdate iu) st = ([], None, st)
       \<and> calls_of (dispatch e (CallbackUpdate cu) st') = calls_of (dispatch e (CallbackUpdate cu) st)
       \<and> raised_of (dispatch e (CallbackUpdate cu) st') = raised_of (dispatch e (CallbackUpdate cu) st)
       \<and> state_of (dispatch e (CallbackUpdate cu) st') = st'
       \<and> dispatch e (InlineUpdate iu) st' = ([], None, st')"
proof -
  have b': "users st' b = users st b" "globals st' = globals st"
    using assms(1,10) by auto
  have nf: "sessions (fst (users st b, globals st)) sid = None"
    using assms(3) by simp
  have c1: "calls_of (button_callback e cu (users st b, globals st)) =
      [AnswerCallback, EditMessageText ''Session not found.'']"
    by (rule session_not_found_calls(1) [OF assms(5) assms(7) assms(6) nf])
  have c2: "state_of (button_callback e cu (users st b, globals st)) = (users st b, globals st)"
    by (rule session_not_found_calls(2) [OF assms(5) assms(7) assms(6) nf])
  have d: "calls_of (dispatch e (CallbackUpdate cu) t) =
             calls_of (button_callback e cu (users t b, globals t))
         \<and> raised_of (dispatch e (CallbackUpdate cu) t) =
             raised_of (button_callback e cu (users t b, globals t))
         \<and> state_of (dispatch e (CallbackUpdate cu) t) =
             \<lparr>users = (users t)(b := fst (state_of (button_callback e cu (users t b, globals t)))),
              globals = snd (state_of (button_callback e cu (users t b, globals t)))\<rparr>" for t
    using assms(4) by (simp add: run_defs split: prod.splits)
  have i: "dispatch e (InlineUpdate iu) t = ([], None, t)" if "users t b = users st b" for t
  proof -
    have "sessions (users t b) sid = None"
      using that assms(3) by simp
    with assms(9) have "inline_query_handler e iu (users t b) = ([], None, users t b)"
      by (rule inline_query_not_found)
    then show ?thesis
      using assms(8) by (simp add: with_user_def)
  qed
  have k: "calls_of (dispatch e (CallbackUpdate cu) t) =
             [AnswerCallback, EditMessageText ''Session not found.'']
         \<and> raised_of (dispatch e (CallbackUpdate cu) t) =
             raised_of (button_callback e cu (users st b, globals st))
         \<and> state_of (dispatch e (CallbackUpdate cu) t) = t"
    if u: "users t b = users st b" and gl: "globals t = globals st" for t
  proof -
    have f: "(users t)(b := users st b) = users t"
      using u by (metis fun_upd_triv)
    have "\<lparr>users = (users t)(b := users st b), globals = globals st\<rparr> = t"
      unfolding f gl [symmetric] by simp
    then show ?thesis
      using d [of t] c1 c2 unfolding u gl by (simp del: dispatch.simps)
  qed
  from k [of st] k [of st', OF b'] i [of st] i [of st', OF b'(1)]
  show ?thesis by (simp del: dispatch.simps)
qed

theorem lookup_scoped_per_user_witness:
  "calls_of (dispatch ok_env (CallbackUpdate callback_of_8) two_users) =
     [AnswerCallback, EditMessageText ''Session not found.'']
   \<and> state_of (dispatch ok_env (CallbackUpdate callback_of_8) two_users) = two_users
   \<and> dispatch ok_env (InlineUpdate share_query_of_8) two_users = ([], None, two_users)"
proof -
  have h1: "(7::int) \<noteq> 8" by simp
  have h2: "sessions (users two_users 7) ''42_012345'' = Some demo_session"
    by (simp add: two_users_def demo_user_def)
  have h3: "sessions (users two_users 8) ''42_012345'' = None"
    by (simp add: two_users_def empty_user_data_def)
  have h4: "cq_user_id callback_of_8 = 8" by (simp add: callback_of_8_def)
  have h5: "cq_chat_type callback_of_8 = Some ''private''" by (simp add: callback_of_8_def)
  have h6: "split_on CHR '':'' (cq_data callback_of_8) = ''session'' # ''42_012345'' # ''done'' # []"
    by (simp add: callback_of_8_def split_done)
  have h7: "query_answer ok_env = Inr ()" by (simp add: ok_env_def)
  have h8: "iq_user_id share_query_of_8 = 8" by (simp add: share_query_of_8_def)
  have h9: "iq_query share_query_of_8 = ''share_'' @ ''42_012345''"
    by (simp add: share_query_of_8_def)
  from lookup_scoped_per_user [OF h1 h2 h3 h4 h5 h6 h7 h8 h9 refl]
  show ?thesis by blast
qed

section \<open>Invariants: rules for the handlers\<close>

lemma state_of_simps [simp]:
  "state_of (ret st) = st"
  "state_of (raise ex st) = st"
  "state_of (prepend cs r) = state_of r"
  "state_of (with_globals g ru) = (state_of ru, g)"
  by (auto simp: run_defs split: prod.splits)

text \<open>
  A property of the state holds after a request when it holds where the request is
  made and after what follows its return.
\<close>

lemma await_inv:
  assumes "P st" and "\<And>v. r = Inr v \<Longrightarrow> P (state_of (k v))"
  shows "P (state_of (await c r st k))"
  using assms by (cases r) (auto simp: await_def state_of_def prepend_def split: prod.splits)

lemma state_of_with_user [simp]:
  "state_of (with_user st uid r) = st\<lparr>users := (users st)(uid := state_of r)\<rparr>"
  by (auto simp: with_user_def state_of_def split: prod.splits)

lemma state_of_dispatch_callback:
  "state_of (dispatch e (CallbackUpdate upd) st) =
     \<lparr>users = (users st)(cq_user_id upd :=
                 fst (state_of (button_callback e upd (users st (cq_user_id upd), globals st)))),
      globals = snd (state_of (button_callback e upd (users st (cq_user_id upd), globals st)))\<rparr>"
  by (simp add: state_of_def split: prod.splits)

lemma str_int_42: "str_int 42 = ''42''"
  by code_simp

lemma calls_of_with_user [simp]: "calls_of (with_user st uid r) = calls_of r"
  by (auto simp: with_user_def calls_of_def split: prod.splits)

lemma raised_of_with_user [simp]: "raised_of (with_user st uid r) = raised_of r"
  by (auto simp: with_user_def raised_of_def split: prod.splits)

text \<open>A message that starts with a bot command changes no state.\<close>

lemma message_reply_state:
  "state_of k = st \<Longrightarrow> state_of (message_reply e upd t st k) = st"
  by (auto simp: message_reply_def run_defs split: option.splits sum.splits prod.splits)

lemma reply_chunks_state: "state_of (reply_chunks e upd chunks st) = st"
  by (induction chunks) (simp_all add: message_reply_state)

lemma invite_command_state: "state_of (invite_command e upd g) = g"
  by (simp add: invite_command_def message_reply_state reply_chunks_state split: option.splits)

lemma dispatch_command_state:
  assumes "mu_command upd \<noteq> NoCommand"
  shows "state_of (dispatch e (MessageUpdate upd) st) = st"
proof (cases "mu_command upd")
  case NoCommand
  with assms show ?thesis by simp
next
  case InviteCommand
  then show ?thesis
    using invite_command_state [of e upd "globals st"]
    by (cases "invite_command e upd (globals st)") (simp add: state_of_def)
next
  case OtherCommand
  then show ?thesis by simp
qed

section \<open>The URL whitelist\<close>

lemma user_urls_ok_lookup:
  "user_urls_ok ud \<Longrightarrow> sessions ud sid = Some s \<Longrightarrow> rows_urls_ok (inline_buttons s)"
  by (auto simp: user_urls_ok_def)

lemma append_button_urls_ok:
  assumes "rows_urls_ok rows" and "is_valid_url (btn_url b)"
    and "append_button target rows b = Inr rows'"
  shows "rows_urls_ok rows'"
proof -
  let ?P = "list_all (\<lambda>b. is_valid_url (btn_url b))"
  have old: "?P row" if "row \<in> set rows" for row
    using assms(1) that by (simp add: rows_urls_ok_def list_all_iff)
  have upd: "list_all ?P (rows[j := rows ! j @ [b]])" if "j < length rows" for j
  proof -
    have "?P (rows ! j @ [b])"
      using old [OF nth_mem [OF that]] assms(2) by simp
    moreover have "set (rows[j := rows ! j @ [b]]) \<subseteq> insert (rows ! j @ [b]) (set rows)"
      by (rule set_update_subset_insert)
    ultimately show ?thesis
      using old unfolding list_all_iff [of ?P] by blast
  qed
  have new: "list_all ?P (rows @ [[b]])"
    using assms(1,2) by (simp add: rows_urls_ok_def)
  show ?thesis
    using assms(3) upd new
    by (auto simp: append_button_def rows_urls_ok_def Let_def split: if_splits option.splits)
qed

lemma extract_none_urls_ok [simp]: "rows_urls_ok []"
  by (simp add: rows_urls_ok_def)

lemmas urls_await = await_inv [where P = user_urls_ok]

lemma start_message_urls_ok:
  assumes "user_urls_ok ud" and "forwarded_urls_ok (MessageUpdate upd)"
  shows "user_urls_ok (state_of (start_message e upd ud))"
proof (cases "mu_chat_type upd \<noteq> ''private'' \<or> mu_message upd = None")
  case True
  with assms(1) show ?thesis by (auto simp: start_message_def)
next
  case False
  then obtain m where m: "mu_message upd = Some m" and p: "mu_chat_type upd = ''private''"
    by auto
  have n: "rows_urls_ok (inline_buttons (new_session e m))"
    using assms(2) m by (simp add: new_session_def)
  have k: "user_urls_ok (put_session (new_session e m\<lparr>last_message_id := x\<rparr>) ud')"
    if "user_urls_ok ud'" for x ud'
    using that n by (simp add: user_urls_ok_def put_session_def)
  have k0: "user_urls_ok (put_session (new_session e m) ud)"
    using assms(1) n by (simp add: user_urls_ok_def put_session_def)
  show ?thesis
    unfolding start_message_def Let_def using m p k k0
    by (auto intro!: urls_await)
qed

lemma check_admin_urls_ok:
  assumes "user_urls_ok ud" and "sessions ud sid = Some s"
  shows "user_urls_ok (state_of (check_admin e uid sid s dest ud))"
proof -
  have c: "user_urls_ok (ud\<lparr>sessions := (sessions ud)(sid \<mapsto> s\<lparr>awaiting_post := False\<rparr>),
                      awaiting_post_session_id := None\<rparr>)"
    using assms by (auto simp: user_urls_ok_def)
  have p: "user_urls_ok (ud\<lparr>awaiting_post_session_id := None\<rparr>)"
    using assms by (auto simp: user_urls_ok_def)
  show ?thesis
    unfolding check_admin_def Let_def using assms(1) c p
    by (auto intro!: urls_await split: sum.splits)
qed

lemma post_destination_urls_ok:
  assumes "user_urls_ok ud"
  shows "user_urls_ok (state_of (post_destination e uid m sid ud))"
proof (cases "sessions ud sid")
  case None
  with assms show ?thesis by (simp add: post_destination_def user_urls_ok_def)
next
  case (Some s)
  have c: "user_urls_ok (state_of (check_admin e uid sid s dest ud))" for dest
    using assms Some by (rule check_admin_urls_ok)
  show ?thesis
    unfolding post_destination_def using assms Some c
    by (auto intro!: urls_await split: option.splits sum.splits)
qed

lemma button_info_urls_ok:
  assumes "user_urls_ok ud"
  shows "user_urls_ok (state_of (button_info e m sid ud))"
proof (cases "sessions ud sid")
  case None
  with assms show ?thesis by (simp add: button_info_def user_urls_ok_def)
next
  case (Some s)
  have r: "rows_urls_ok (inline_buttons s)"
    using assms Some by (rule user_urls_ok_lookup)
  have a: "rows_urls_ok rows'"
    if "is_valid_url u"
      "append_button (target_row s) (inline_buttons s) \<lparr>btn_text = l, btn_url = u\<rparr> = Inr rows'"
    for l u rows'
    by (rule append_button_urls_ok [OF r _ that(2)]) (simp add: that(1))
  show ?thesis
    unfolding button_info_def Let_def using assms Some a
    by (auto intro!: urls_await split: option.splits sum.splits)
       (auto simp: user_urls_ok_def)
qed

lemma button_info_handler_urls_ok:
  assumes "user_urls_ok ud" and "forwarded_urls_ok (MessageUpdate upd)"
  shows "user_urls_ok (state_of (button_info_handler e upd ud))"
  using assms start_message_urls_ok post_destination_urls_ok button_info_urls_ok
  by (simp add: button_info_handler_def split: option.splits)

lemma inline_query_handler_urls_ok:
  assumes "user_urls_ok ud"
  shows "user_urls_ok (state_of (inline_query_handler e upd ud))"
  unfolding inline_query_handler_def Let_def using assms
  by (auto intro!: urls_await split: option.splits)


lemmas urls_await_pair = await_inv [where P = "\<lambda>st. user_urls_ok (fst st)"]

lemma prompt_button_info_urls_ok:
  assumes "user_urls_ok ud" and "sessions ud sid = Some s"
  shows "user_urls_ok (state_of (prompt_button_info e sid s row_index ud))"
  unfolding prompt_button_info_def Let_def using assms
  by (auto intro!: urls_await) (auto simp: user_urls_ok_def)

lemma add_row_action_urls_ok:
  assumes "user_urls_ok ud" and "sessions ud sid = Some s"
  shows "user_urls_ok (state_of (add_row_action e data sid s ud))"
  using assms prompt_button_info_urls_ok [OF assms]
  by (simp add: add_row_action_def split: sum.splits)

lemma done_action_urls_ok:
  assumes "user_urls_ok ud" and "sessions ud sid = Some s"
  shows "user_urls_ok (state_of (done_action e sid s ud))"
  unfolding done_action_def Let_def using assms
  by (auto intro!: urls_await) (auto simp: user_urls_ok_def)

lemma post_action_urls_ok:
  assumes "user_urls_ok ud" and "sessions ud sid = Some s"
  shows "user_urls_ok (state_of (post_action e sid s ud))"
  unfolding post_action_def Let_def using assms
  by (auto intro!: urls_await) (auto simp: user_urls_ok_def)

lemma del_session_urls_ok:
  "user_urls_ok ud \<Longrightarrow> user_urls_ok (del_session sid ud)"
  by (simp add: user_urls_ok_def del_session_def)

lemma post_confirm_action_urls_ok:
  assumes "user_urls_ok ud"
  shows "user_urls_ok (fst (state_of (post_confirm_action e data sid s (ud, g))))"
  unfolding post_confirm_action_def using assms del_session_urls_ok [OF assms]
  by (auto intro!: urls_await_pair split: prod.splits option.splits) (simp add: state_of_def)

lemma button_callback_urls_ok:
  assumes "user_urls_ok ud"
  shows "user_urls_ok (fst (state_of (button_callback e upd (ud, g))))"
  unfolding button_callback_def Let_def
  using assms add_row_action_urls_ok [OF assms] done_action_urls_ok [OF assms]
    post_action_urls_ok [OF assms] post_confirm_action_urls_ok [OF assms]
  by (auto intro!: urls_await_pair split: option.splits)

lemma dispatch_urls_ok:
  assumes "state_urls_ok st" and "forwarded_urls_ok u"
  shows "state_urls_ok (state_of (dispatch e u st))"
proof (cases u)
  case (MessageUpdate upd)
  show ?thesis
  proof (cases "mu_command upd = NoCommand")
    case True
    with assms MessageUpdate show ?thesis
      by (simp add: state_urls_ok_def button_info_handler_urls_ok)
  next
    case False
    with assms(1) MessageUpdate show ?thesis
      by (simp add: dispatch_command_state del: dispatch.simps)
  qed
next
  case (CallbackUpdate upd)
  with assms show ?thesis
    by (simp add: state_urls_ok_def state_of_dispatch_callback button_callback_urls_ok
        del: dispatch.simps)
next
  case (InlineUpdate upd)
  with assms show ?thesis
    by (simp add: state_urls_ok_def inline_query_handler_urls_ok)
qed

lemma run_urls_ok:
  assumes "state_urls_ok st" and "list_all (\<lambda>(e, u). forwarded_urls_ok u) evs"
  shows "state_urls_ok (run evs st)"
  using assms
  by (induction evs arbitrary: st) (auto simp: dispatch_urls_ok simp del: dispatch.simps)

lemma initial_state_urls_ok: "state_urls_ok initial_state"
  by (simp add: state_urls_ok_def user_urls_ok_def initial_state_def empty_user_data_def)

text \<open>
  Claim C4, as stated: every stored URL is whitelisted in every reachable state, the
  creation of a session from a forwarded message with URL buttons included. The first
  update the bot receives is a forwarded message with a button for \<open>ftp://x\<close>: lines
  126-127 keep every button whose \<open>url\<close> is not empty, and the stored session holds the
  URL, which is off the whitelist.
\<close>

theorem forwarded_url_not_whitelisted:
  "map_option inline_buttons
     (sessions (users (run [(ok_env, MessageUpdate forwarded_ftp)] initial_state) 7) ''42_012345'')
   = Some [[\<lparr>btn_text = ''Files'', btn_url = ''ftp://x''\<rparr>]]
   \<and> \<not> is_valid_url ''ftp://x''"
  by (simp add: forwarded_ftp_def initial_state_def empty_user_data_def button_info_handler_def
      start_message_def new_session_def put_session_def extract_buttons_def extract_row_def
      str_int_42 ok_env_def with_user_def run_defs py_defs)

text \<open>
  Claim C4, amended. Starting from the bot's initial state, after any sequence of
  updates, whatever the outside answers: if every forwarded message among them carries
  only URL buttons with a whitelisted URL (the buttons \<open>start_message\<close> copies unchecked),
  then every URL stored in a session is whitelisted. The URLs that come from free text
  are checked when they are added (line 354), and no other operation adds one.
\<close>

theorem stored_urls_whitelisted:
  assumes "list_all (\<lambda>(e, u). forwarded_urls_ok u) evs"
  shows "state_urls_ok (run evs initial_state)"
  using initial_state_urls_ok assms by (rule run_urls_ok)

lemma run_forwarded_https:
  "map_option inline_buttons
     (sessions (users (run [(ok_env, MessageUpdate forwarded_https)] initial_state) 7) ''42_012345'')
   = Some [[\<lparr>btn_text = ''Site'', btn_url = ''https://t.me/x''\<rparr>]]"
  by (simp add: forwarded_https_def initial_state_def empty_user_data_def button_info_handler_def
      start_message_def new_session_def put_session_def extract_buttons_def extract_row_def
      str_int_42 ok_env_def with_user_def run_defs)

theorem stored_urls_whitelisted_witness:
  "state_urls_ok (run [(ok_env, MessageUpdate forwarded_https)] initial_state)
   \<and> map_option inline_buttons
       (sessions (users (run [(ok_env, MessageUpdate forwarded_https)] initial_state) 7) ''42_012345'')
     = Some [[\<lparr>btn_text = ''Site'', btn_url = ''https://t.me/x''\<rparr>]]"
proof -
  have h: "list_all (\<lambda>(e, u). forwarded_urls_ok u) [(ok_env, MessageUpdate forwarded_https)]"
    by (simp add: forwarded_https_def extract_buttons_def extract_row_def rows_urls_ok_def py_defs)
  from stored_urls_whitelisted [OF h] run_forwarded_https show ?thesis by simp
qed

section \<open>Runs of the bot on concrete updates\<close>

lemmas handler_defs =
  button_info_handler_def start_message_def new_session_def put_session_def extract_buttons_def
  post_destination_def check_admin_def button_info_def append_button_def
  button_callback_def prompt_button_info_def add_row_action_def done_action_def post_action_def
  post_confirm_action_def try_post_def del_session_def inline_query_handler_def with_user_def
  build_editing_keyboard_def build_final_keyboard_def build_post_share_keyboard_def
  build_yes_no_keyboard_def url_buttons_def

lemma step_hello:
  "state_of (dispatch ok_env (MessageUpdate (private_text ''Hello'')) initial_state) =
     one_user \<lparr>sessions = [''42_012345'' \<mapsto> fresh_session],
               awaiting_session_id = None, awaiting_post_session_id = None\<rparr>"
  by (simp add: handler_defs run_defs private_text_def ok_env_def initial_state_def
      empty_user_data_def one_user_def fresh_session_def str_int_42)

lemma split_add_to_row_5:
  "split_on CHR '':'' ''session:42_012345:add_to_row:5'' =
     [''session'', ''42_012345'', ''add_to_row'', ''5'']"
  by simp

lemma py_int_5: "py_int e ''5'' = Inr 5"
  by (simp add: py_defs)

lemma step_add_to_row_5:
  "state_of (dispatch ok_env (CallbackUpdate (private_callback ''session:42_012345:add_to_row:5''))
     (one_user \<lparr>sessions = [''42_012345'' \<mapsto> fresh_session],
               awaiting_session_id = None, awaiting_post_session_id = None\<rparr>)) =
     one_user \<lparr>sessions = [''42_012345'' \<mapsto>
                   fresh_session\<lparr>awaiting_button_info := True, target_row := Some 5\<rparr>],
               awaiting_session_id = Some ''42_012345'', awaiting_post_session_id = None\<rparr>"
  by (simp add: handler_defs run_defs private_callback_def ok_env_def one_user_def
      split_add_to_row_5 py_int_5)

lemma rsplit_go: "rsplit_space1 (strip ''Go https://go.dev'') = [''Go'', ''https://go.dev'']"
  by (simp add: py_defs)

lemma valid_go: "is_valid_url ''https://go.dev''"
  by (simp add: py_defs)

lemma split_new_row:
  "split_on CHR '':'' ''session:42_012345:new_row'' = [''session'', ''42_012345'', ''new_row'']"
  by simp

lemma split_add_to_row_0:
  "split_on CHR '':'' ''session:42_012345:add_to_row:0'' =
     [''session'', ''42_012345'', ''add_to_row'', ''0'']"
  by simp

lemma py_int_0: "py_int e ''0'' = Inr 0"
  by (simp add: py_defs)

lemma step_new_row:
  "state_of (dispatch ok_env (CallbackUpdate (private_callback ''session:42_012345:new_row''))
     (one_user \<lparr>sessions = [''42_012345'' \<mapsto> fresh_session],
               awaiting_session_id = None, awaiting_post_session_id = None\<rparr>)) =
     one_user labelling_user"
  by (simp add: handler_defs run_defs private_callback_def ok_env_def one_user_def
      split_new_row labelling_user_def editing_session_def fresh_session_def)

lemma step_go:
  "state_of (dispatch ok_env (MessageUpdate (private_text ''Go https://go.dev''))
     (one_user labelling_user)) =
     one_user \<lparr>sessions = [''42_012345'' \<mapsto> one_button_session],
               awaiting_session_id = None, awaiting_post_session_id = None\<rparr>"
  by (simp add: handler_defs run_defs private_text_def ok_env_def one_user_def rsplit_go valid_go
      labelling_user_def editing_session_def one_button_session_def fresh_session_def Let_def)

lemma step_add_to_row_0:
  "state_of (dispatch ok_env (CallbackUpdate (private_callback ''session:42_012345:add_to_row:0''))
     (one_user \<lparr>sessions = [''42_012345'' \<mapsto> one_button_session],
               awaiting_session_id = None, awaiting_post_session_id = None\<rparr>)) =
     one_user \<lparr>sessions = [''42_012345'' \<mapsto>
                   one_button_session\<lparr>awaiting_button_info := True, target_row := Some 0\<rparr>],
               awaiting_session_id = Some ''42_012345'', awaiting_post_session_id = None\<rparr>"
  by (simp add: handler_defs run_defs private_callback_def ok_env_def one_user_def
      split_add_to_row_0 py_int_0)

section \<open>The target row of a pending button\<close>

lemma target_in_range_update [simp]:
  "target_in_range (s\<lparr>awaiting_post := p\<rparr>) = target_in_range s"
  "target_in_range (s\<lparr>final_message_id := f\<rparr>) = target_in_range s"
  "target_in_range (s\<lparr>last_message_id := l\<rparr>) = target_in_range s"
  "target_in_range (s\<lparr>awaiting_button_info := a\<rparr>) = target_in_range s"
  "target_in_range (s\<lparr>target_row := Some t\<rparr>) = (0 \<le> t \<and> t \<le> int (length (inline_buttons s)))"
  by (simp_all add: target_in_range_def split: option.splits)

lemmas target_await = await_inv [where P = user_target_ok]

lemmas target_await_pair = await_inv [where P = "\<lambda>st. user_target_ok (fst st)"]

lemma start_message_target_ok:
  assumes "user_target_ok ud" and "awaiting_session_id ud = None"
  shows "user_target_ok (state_of (start_message e upd ud))"
  unfolding start_message_def Let_def using assms
  by (auto intro!: target_await split: option.splits)
     (auto simp: user_target_ok_def put_session_def new_session_def)

lemma check_admin_target_ok:
  assumes "user_target_ok ud" and "sessions ud sid = Some s"
  shows "user_target_ok (state_of (check_admin e uid sid s dest ud))"
  unfolding check_admin_def Let_def using assms
  by (auto intro!: target_await split: sum.splits)
     (auto simp: user_target_ok_def)

lemma post_destination_target_ok:
  assumes "user_target_ok ud"
  shows "user_target_ok (state_of (post_destination e uid m sid ud))"
proof (cases "sessions ud sid")
  case None
  with assms show ?thesis by (simp add: post_destination_def user_target_ok_def)
next
  case (Some s)
  have c: "user_target_ok (state_of (check_admin e uid sid s dest ud))" for dest
    using assms Some by (rule check_admin_target_ok)
  show ?thesis
    unfolding post_destination_def using assms Some c
    by (auto intro!: target_await split: option.splits sum.splits)
qed

lemma button_info_target_ok:
  assumes "user_target_ok ud"
  shows "user_target_ok (state_of (button_info e m sid ud))"
  unfolding button_info_def Let_def using assms
  by (auto intro!: target_await split: option.splits sum.splits)
     (auto simp: user_target_ok_def)

lemma button_info_handler_target_ok:
  assumes "user_target_ok ud"
  shows "user_target_ok (state_of (button_info_handler e upd ud))"
  using assms start_message_target_ok post_destination_target_ok button_info_target_ok
  by (simp add: button_info_handler_def split: option.splits)

lemma inline_query_handler_target_ok:
  assumes "user_target_ok ud"
  shows "user_target_ok (state_of (inline_query_handler e upd ud))"
  unfolding inline_query_handler_def Let_def using assms
  by (auto intro!: target_await split: option.splits)

lemma prompt_button_info_target_ok:
  assumes "user_target_ok ud" and "sessions ud sid = Some s"
    and "0 \<le> row_index" and "row_index \<le> int (length (inline_buttons s))"
  shows "user_target_ok (state_of (prompt_button_info e sid s row_index ud))"
  unfolding prompt_button_info_def Let_def using assms
  by (auto intro!: target_await) (auto simp: user_target_ok_def)

lemma add_row_action_target_ok:
  assumes "user_target_ok ud" and "sessions ud sid = Some s"
    and "data ! 2 = ''add_to_row'' \<longrightarrow> 4 \<le> length data \<longrightarrow>
           (case py_int e (data ! 3) of
              Inl ex \<Rightarrow> True
            | Inr row_index \<Rightarrow> 0 \<le> row_index \<and> row_index \<le> int (length (inline_buttons s)))"
  shows "user_target_ok (state_of (add_row_action e data sid s ud))"
  using assms prompt_button_info_target_ok [OF assms(1,2)]
  by (auto simp: add_row_action_def split: sum.splits)

lemma done_action_target_ok:
  assumes "user_target_ok ud" and "sessions ud sid = Some s"
  shows "user_target_ok (state_of (done_action e sid s ud))"
  unfolding done_action_def Let_def using assms
  by (auto intro!: target_await) (auto simp: user_target_ok_def)

lemma post_action_target_ok:
  assumes "user_target_ok ud" and "sessions ud sid = Some s"
  shows "user_target_ok (state_of (post_action e sid s ud))"
  unfolding post_action_def Let_def using assms
  by (auto intro!: target_await) (auto simp: user_target_ok_def)

lemma del_session_target_ok:
  "user_target_ok ud \<Longrightarrow> user_target_ok (del_session sid ud)"
  by (simp add: user_target_ok_def del_session_def)

lemma post_confirm_action_target_ok:
  assumes "user_target_ok ud"
  shows "user_target_ok (fst (state_of (post_confirm_action e data sid s (ud, g))))"
  unfolding post_confirm_action_def using assms del_session_target_ok [OF assms]
  by (auto intro!: target_await_pair split: prod.splits option.splits) (simp add: state_of_def)

lemma button_callback_target_ok:
  assumes "user_target_ok ud"
    and "row_index_ok e \<lparr>users = (\<lambda>_. ud), globals = g\<rparr> (CallbackUpdate upd)"
  shows "user_target_ok (fst (state_of (button_callback e upd (ud, g))))"
proof -
  let ?data = "split_on CHR '':'' (cq_data upd)"
  have a: "user_target_ok (state_of (add_row_action e ?data (?data ! 1) s ud))"
    if "sessions ud (?data ! 1) = Some s" "\<not> length ?data < 3" "?data ! 0 = ''session''" for s
    using assms(2) that
    by (intro add_row_action_target_ok [OF assms(1) that(1)]) (auto simp: Let_def)
  show ?thesis
    unfolding button_callback_def Let_def
    using assms(1) a done_action_target_ok [OF assms(1)]
      post_action_target_ok [OF assms(1)] post_confirm_action_target_ok [OF assms(1)]
    by (auto intro!: target_await_pair split: option.splits)
qed

lemma row_index_ok_user:
  "row_index_ok e st (CallbackUpdate upd) =
     row_index_ok e \<lparr>users = (\<lambda>_. users st (cq_user_id upd)), globals = g\<rparr> (CallbackUpdate upd)"
  by simp

lemma dispatch_target_ok:
  assumes "state_target_ok st" and "row_index_ok e st u"
  shows "state_target_ok (state_of (dispatch e u st))"
proof (cases u)
  case (MessageUpdate upd)
  show ?thesis
  proof (cases "mu_command upd = NoCommand")
    case True
    with assms MessageUpdate show ?thesis
      by (simp add: state_target_ok_def button_info_handler_target_ok)
  next
    case False
    with assms(1) MessageUpdate show ?thesis
      by (simp add: dispatch_command_state del: dispatch.simps)
  qed
next
  case (CallbackUpdate upd)
  have "user_target_ok (fst (state_of (button_callback e upd (users st (cq_user_id upd), globals st))))"
    using assms unfolding CallbackUpdate state_target_ok_def
    by (intro button_callback_target_ok) (simp_all only: row_index_ok_user [symmetric])
  with assms show ?thesis
    unfolding CallbackUpdate
    by (simp add: state_target_ok_def state_of_dispatch_callback del: dispatch.simps)
next
  case (InlineUpdate upd)
  with assms show ?thesis
    by (simp add: state_target_ok_def inline_query_handler_target_ok)
qed

text \<open>
  The row index three in Arabic-Indic digits, for a session without rows, is out of
  range.
\<close>

lemma arabic_indic_index_not_ok:
  "\<not> row_index_ok ok_env
       (one_user \<lparr>sessions = [''42_012345'' \<mapsto> fresh_session],
                  awaiting_session_id = None, awaiting_post_session_id = None\<rparr>)
       (CallbackUpdate (private_callback (''session:42_012345:add_to_row:'' @ [CHR 0xD9, CHR 0xA3])))"
  by (simp add: private_callback_def one_user_def fresh_session_def py_int_arabic_indic_3)

lemma run_target_ok:
  assumes "state_target_ok st" and "row_indices_ok evs st"
  shows "state_target_ok (run evs st)"
  using assms
  by (induction evs arbitrary: st) (auto simp: dispatch_target_ok simp del: dispatch.simps)

lemma initial_state_target_ok: "state_target_ok initial_state"
  by (simp add: state_target_ok_def user_target_ok_def initial_state_def empty_user_data_def)

lemma append_button_in_range:
  assumes "target_in_range s"
  shows "\<exists>rows. append_button (target_row s) (inline_buttons s) b = Inr rows"
  using assms
  by (auto simp: target_in_range_def append_button_def Let_def split: option.splits)

text \<open>
  Claim C5, as stated: whenever a session awaits a button label, its target row is an
  existing row or the row count, for every sequence of operations, \<open>add_to_row\<close> with an
  arbitrary row index included; so the append never indexes out of range. After the
  message \<open>Hello\<close> and the callback \<open>add_to_row:5\<close> the session awaits button info for row 5
  and has no row (line 211 stores the index unchecked), and the text
  \<open>Go https://go.dev\<close> sent next raises \<open>IndexError\<close> on line 361.
\<close>

theorem row_index_out_of_range:
  "users (run [says ''Hello'', presses ''session:42_012345:add_to_row:5'']
          initial_state) 7 =
     \<lparr>sessions = [''42_012345'' \<mapsto>
                   fresh_session\<lparr>awaiting_button_info := True, target_row := Some 5\<rparr>],
      awaiting_session_id = Some ''42_012345'', awaiting_post_session_id = None\<rparr>
   \<and> inline_buttons fresh_session = []
   \<and> raised_of (dispatch ok_env (MessageUpdate (private_text ''Go https://go.dev''))
        (run [says ''Hello'', presses ''session:42_012345:add_to_row:5'']
           initial_state)) = Some IndexError"
proof -
  have r: "run [says ''Hello'', presses ''session:42_012345:add_to_row:5'']
          initial_state =
      one_user \<lparr>sessions = [''42_012345'' \<mapsto>
                   fresh_session\<lparr>awaiting_button_info := True, target_row := Some 5\<rparr>],
               awaiting_session_id = Some ''42_012345'', awaiting_post_session_id = None\<rparr>"
    by (simp add: says_def presses_def step_hello step_add_to_row_5 del: dispatch.simps)
  show ?thesis
    unfolding r
    by (simp add: one_user_def handler_defs run_defs private_text_def rsplit_go valid_go
        fresh_session_def Let_def)
qed

text \<open>
  Claim C5, amended. Starting from the bot's initial state, after any sequence of
  updates in which every \<open>add_to_row\<close> callback for a stored session carries a row index
  that \<open>int\<close> rejects or reads as a number between 0 and the number of rows that session
  has at that moment, whatever the outside answers: a session that awaits button info
  has a target row between 0 and its number of rows; and for the session the button
  pointer names, the append of lines 357-361 succeeds for any button (no \<open>IndexError\<close>,
  no \<open>TypeError\<close>).
\<close>

theorem target_row_in_range:
  assumes "row_indices_ok evs initial_state"
  shows "(sessions (users (run evs initial_state) uid) sid = Some s \<and> awaiting_button_info s \<longrightarrow>
            (\<exists>t. target_row s = Some t \<and> 0 \<le> t \<and> t \<le> int (length (inline_buttons s))))
       \<and> (awaiting_session_id (users (run evs initial_state) uid) = Some sid' \<and>
          sessions (users (run evs initial_state) uid) sid' = Some s' \<longrightarrow>
            (\<exists>rows. append_button (target_row s') (inline_buttons s') b = Inr rows))"
proof -
  have ok: "user_target_ok (users (run evs initial_state) uid)"
    using run_target_ok [OF initial_state_target_ok assms] by (simp add: state_target_ok_def)
  have "target_in_range s"
    if "sessions (users (run evs initial_state) uid) sid = Some s" "awaiting_button_info s"
    using ok that by (auto simp: user_target_ok_def)
  then have a: "sessions (users (run evs initial_state) uid) sid = Some s \<and> awaiting_button_info s \<longrightarrow>
            (\<exists>t. target_row s = Some t \<and> 0 \<le> t \<and> t \<le> int (length (inline_buttons s)))"
    by (cases "target_row s") (auto simp: target_in_range_def)
  have "target_in_range s'"
    if "awaiting_session_id (users (run evs initial_state) uid) = Some sid'"
      "sessions (users (run evs initial_state) uid) sid' = Some s'"
    using ok that by (auto simp: user_target_ok_def)
  then have b: "awaiting_session_id (users (run evs initial_state) uid) = Some sid' \<and>
      sessions (users (run evs initial_state) uid) sid' = Some s' \<longrightarrow>
        (\<exists>rows. append_button (target_row s') (inline_buttons s') b = Inr rows)"
    using append_button_in_range by blast
  from a b show ?thesis by blast
qed

theorem target_row_in_range_witness:
  "row_indices_ok [says ''Hello'', presses ''session:42_012345:new_row'', says ''Go https://go.dev'',
                   presses ''session:42_012345:add_to_row:0''] initial_state
   \<and> users (run [says ''Hello'', presses ''session:42_012345:new_row'', says ''Go https://go.dev'',
                 presses ''session:42_012345:add_to_row:0''] initial_state) 7 =
       \<lparr>sessions = [''42_012345'' \<mapsto>
                     one_button_session\<lparr>awaiting_button_info := True, target_row := Some 0\<rparr>],
        awaiting_session_id = Some ''42_012345'', awaiting_post_session_id = None\<rparr>
   \<and> (\<exists>rows. append_button (Some 0) [[\<lparr>btn_text = ''Go'', btn_url = ''https://go.dev''\<rparr>]]
                \<lparr>btn_text = ''Docs'', btn_url = ''https://go.dev/doc''\<rparr> = Inr rows)"
proof -
  let ?evs = "[says ''Hello'', presses ''session:42_012345:new_row'', says ''Go https://go.dev'',
               presses ''session:42_012345:add_to_row:0'']"
  let ?s = "one_button_session\<lparr>awaiting_button_info := True, target_row := Some 0\<rparr>"
  have h: "row_indices_ok ?evs initial_state"
    by (simp add: says_def presses_def step_hello step_new_row step_go del: dispatch.simps)
       (simp add: private_callback_def one_user_def split_add_to_row_0 py_int_0)
  have r: "run ?evs initial_state =
      one_user \<lparr>sessions = [''42_012345'' \<mapsto> ?s],
                awaiting_session_id = Some ''42_012345'', awaiting_post_session_id = None\<rparr>"
    by (simp add: says_def presses_def step_hello step_new_row step_go step_add_to_row_0
        del: dispatch.simps)
  have u: "users (run ?evs initial_state) 7 =
      \<lparr>sessions = [''42_012345'' \<mapsto> ?s],
       awaiting_session_id = Some ''42_012345'', awaiting_post_session_id = None\<rparr>"
    by (simp add: r one_user_def)
  have p: "awaiting_session_id (users (run ?evs initial_state) 7) = Some ''42_012345''
      \<and> sessions (users (run ?evs initial_state) 7) ''42_012345'' = Some ?s"
    by (simp add: u)
  from target_row_in_range [OF h, of 7 "''42_012345''" ?s "''42_012345''" ?s
      "\<lparr>btn_text = ''Docs'', btn_url = ''https://go.dev/doc''\<rparr>"] p
  have "\<exists>rows. append_button (target_row ?s) (inline_buttons ?s)
                \<lparr>btn_text = ''Docs'', btn_url = ''https://go.dev/doc''\<rparr> = Inr rows"
    by blast
  then have "\<exists>rows. append_button (Some 0) [[\<lparr>btn_text = ''Go'', btn_url = ''https://go.dev''\<rparr>]]
                \<lparr>btn_text = ''Docs'', btn_url = ''https://go.dev/doc''\<rparr> = Inr rows"
    by (simp add: one_button_session_def)
  with h u show ?thesis by blast
qed

section \<open>Free text and its acknowledgement\<close>













section \<open>The invite-link table in every run\<close>

text \<open>
  No handler binds a global name, and the name \<open>invite_links\<close> is not bound when the
  module is loaded: the body of the \<open>try\<close> of a confirmed post always ends in an
  exception, and after every run of the bot the globals are those of the module, the
  table \<open>invite_links_button_bot\<close> empty.
\<close>

lemma try_post_unbound:
  assumes "g ''invite_links'' = None"
  shows "state_of (try_post e dest s g) = g" and "raised_of (try_post e dest s g) \<noteq> None"
  using assms
  by (auto simp: try_post_def run_defs Let_def split: option.splits sum.splits)

lemma post_confirm_action_globals:
  assumes "g ''invite_links'' = None"
  shows "snd (state_of (post_confirm_action e data sid s (ud, g))) = g"
proof -
  obtain cs out g1 where t: "try_post e (data ! 4) s g = (cs, out, g1)"
    by (cases "try_post e (data ! 4) s g") auto
  from try_post_unbound [where g = g, OF assms, of e "data ! 4" s] t
  obtain ex where "out = Some ex" and "g1 = g"
    by (auto simp: state_of_def raised_of_def)
  with t have t': "try_post e (data ! 4) s g = (cs, Some ex, g)" by simp
  show ?thesis
    unfolding post_confirm_action_def
    by (auto intro!: await_inv [where P = "\<lambda>st. snd st = g"] simp: t')
qed

lemma invite_table_never_written:
  assumes "g ''invite_links'' = None"
  shows "snd (state_of (button_callback e upd (ud, g))) = g"
  unfolding button_callback_def Let_def
  using post_confirm_action_globals [where g = g, OF assms]
  by (auto intro!: await_inv [where P = "\<lambda>st. snd st = g"] split: option.splits)

lemma module_globals_unbound: "module_globals ''invite_links'' = None"
  by (simp add: module_globals_def)

lemma run_globals:
  "globals (run evs initial_state) = module_globals"
proof -
  have d: "globals (state_of (dispatch e u st)) = module_globals" if "globals st = module_globals"
    for e u st
  proof (cases u)
    case (MessageUpdate upd)
    show ?thesis
    proof (cases "mu_command upd = NoCommand")
      case True
      with that MessageUpdate show ?thesis by simp
    next
      case False
      with that MessageUpdate show ?thesis
        by (simp add: dispatch_command_state del: dispatch.simps)
    qed
  next
    case (CallbackUpdate upd)
    then show ?thesis
      using that invite_table_never_written [where g = module_globals, OF module_globals_unbound]
      by (simp add: state_of_dispatch_callback del: dispatch.simps)
  qed (use that in simp_all)
  have "globals (run evs st) = module_globals" if "globals st = module_globals" for st
    using that by (induction evs arbitrary: st) (auto simp: d simp del: dispatch.simps)
  then show ?thesis by (simp add: initial_state_def)
qed

end
